theory Spec2Isabelle
  imports Complex_Main "HOL-Library.Sublist" "HOL-Library.AList"
begin

section \<open>Python values\<close>

text \<open>
  The service is one Python module, \<^verbatim>\<open>main.py\<close>.  Its functions are embedded
  here one by one, in the order of the source.  A raised exception is a value
  of type \<open>exn\<close> on the left of a sum, so that every \<^verbatim>\<open>raise\<close> and every
  failing built-in operation is a branch of the model.  \<open>HTTPException\<close> is
  FastAPI's exception (raised by \<^verbatim>\<open>call_api\<close>); \<open>RequestException\<close> stands for
  the exceptions of the \<^verbatim>\<open>requests\<close> library (connection errors, timeouts, and the
  \<^verbatim>\<open>HTTPError\<close> of \<^verbatim>\<open>raise_for_status\<close>), which all derive from
  \<^verbatim>\<open>requests.exceptions.RequestException\<close>; the other constructors are Python's
  built-in exceptions of the same names.
\<close>

datatype exn =
    HTTPException nat
  | RequestException
  | KeyError
  | IndexError
  | TypeError
  | AttributeError
  | ZeroDivisionError
  | OverflowError
  | ValueError

definition ebind :: "exn + 'a \<Rightarrow> ('a \<Rightarrow> exn + 'b) \<Rightarrow> exn + 'b" where
  "ebind m f = (case m of Inl e \<Rightarrow> Inl e | Inr x \<Rightarrow> f x)"

text \<open>
  \<^verbatim>\<open>try: body except (E1, E2): handler\<close>: the handler runs when the body raises
  one of the listed exceptions, any other exception propagates.
\<close>

definition try_except :: "exn + 'a \<Rightarrow> (exn \<Rightarrow> bool) \<Rightarrow> exn + 'a \<Rightarrow> exn + 'a" where
  "try_except body caught handler =
     (case body of Inl e \<Rightarrow> (if caught e then handler else Inl e) | Inr x \<Rightarrow> Inr x)"

subsection \<open>Floats: IEEE 754 binary64, round to nearest, ties to even\<close>

text \<open>
  A Python \<^verbatim>\<open>float\<close> is a binary64 number.  A finite float is represented by
  its exact rational value; the two zeros are identified (their sign is not
  observable through the arithmetic and the comparisons of this program).
  Every arithmetic operation computes the exact rational result and rounds it
  with \<open>fl\<close>: to the nearest number with a 53-bit significand, ties to the even
  significand, with gradual underflow below \<open>2 powi -1022\<close> and overflow to an
  infinity from \<open>2 ^ 1024\<close> on.
\<close>

datatype pyfloat = Fin rat | PInf | NInf | NaN

definition rne :: "rat \<Rightarrow> int" where
  "rne x = (let f = \<lfloor>x\<rfloor>; d = x - of_int f in
     if d < 1/2 then f else if 1/2 < d then f + 1 else if even f then f else f + 1)"

function expo_up :: "rat \<Rightarrow> int" where
  "expo_up x = (if x < 2 then 0 else 1 + expo_up (x / 2))"
  by pat_completeness auto
termination
proof (relation "measure (\<lambda>x. nat \<lfloor>x\<rfloor>)")
  show "wf (measure (\<lambda>x::rat. nat \<lfloor>x\<rfloor>))" by simp
next
  fix x :: rat assume "\<not> x < 2"
  then have "x / 2 \<le> x - 1" by simp
  then have "\<lfloor>x / 2\<rfloor> \<le> \<lfloor>x - 1\<rfloor>" by (rule floor_mono)
  moreover have "1 \<le> \<lfloor>x\<rfloor>" using \<open>\<not> x < 2\<close> by linarith
  ultimately show "(x / 2, x) \<in> measure (\<lambda>x. nat \<lfloor>x\<rfloor>)" by simp
qed

function expo_down :: "rat \<Rightarrow> int" where
  "expo_down x = (if x \<le> 0 \<or> 1 \<le> x then 0 else expo_down (2 * x) - 1)"
  by pat_completeness auto
termination
proof (relation "measure (\<lambda>x. nat \<lfloor>1 / x\<rfloor>)")
  show "wf (measure (\<lambda>x::rat. nat \<lfloor>1 / x\<rfloor>))" by simp
next
  fix x :: rat assume "\<not> (x \<le> 0 \<or> 1 \<le> x)"
  then have x: "0 < x" "x < 1" by auto
  define y where "y = 1 / x"
  have y: "1 < y" using x by (simp add: y_def)
  then have f: "1 \<le> \<lfloor>y\<rfloor>" by linarith
  have "y < of_int \<lfloor>y\<rfloor> + 1" by linarith
  moreover have "(1::rat) \<le> of_int \<lfloor>y\<rfloor>" using f by linarith
  ultimately have "y / 2 < of_int \<lfloor>y\<rfloor>" by linarith
  then have "\<lfloor>y / 2\<rfloor> < \<lfloor>y\<rfloor>" by (simp add: floor_less_iff)
  moreover have "1 / (2 * x) = y / 2" by (simp add: y_def)
  ultimately have "\<lfloor>1 / (2 * x)\<rfloor> < \<lfloor>y\<rfloor>" by (simp only:)
  then show "(2 * x, x) \<in> measure (\<lambda>x. nat \<lfloor>1 / x\<rfloor>)"
    using f unfolding y_def in_measure by linarith
qed

declare expo_up.simps [simp del] expo_down.simps [simp del]

text \<open>The binary exponent of a positive rational: \<open>2 powi expo x \<le> x < 2 powi (expo x + 1)\<close>.\<close>

definition expo :: "rat \<Rightarrow> int" where
  "expo x = (if 1 \<le> x then expo_up x else expo_down x)"

definition round_pos :: "rat \<Rightarrow> rat" where
  "round_pos x = (let u = power_int 2 (max (expo x) (- 1022) - 52) in of_int (rne (x / u)) * u)"

definition fl :: "rat \<Rightarrow> pyfloat" where
  "fl x = (if x = 0 then Fin 0
           else let r = round_pos \<bar>x\<bar> in
             if 2 ^ 1024 \<le> r then (if 0 < x then PInf else NInf)
             else Fin (if 0 < x then r else - r))"

text \<open>A decimal literal of the source, such as \<^verbatim>\<open>0.8\<close>, denotes the nearest float.\<close>

definition float_lit :: "rat \<Rightarrow> pyfloat" where
  "float_lit q = fl q"

fun fneg :: "pyfloat \<Rightarrow> pyfloat" where
  "fneg (Fin a) = Fin (- a)"
| "fneg PInf = NInf"
| "fneg NInf = PInf"
| "fneg NaN = NaN"

fun fadd :: "pyfloat \<Rightarrow> pyfloat \<Rightarrow> pyfloat" where
  "fadd (Fin a) (Fin b) = fl (a + b)"
| "fadd NaN _ = NaN"
| "fadd _ NaN = NaN"
| "fadd PInf NInf = NaN"
| "fadd NInf PInf = NaN"
| "fadd PInf _ = PInf"
| "fadd NInf _ = NInf"
| "fadd _ PInf = PInf"
| "fadd _ NInf = NInf"

definition fsub :: "pyfloat \<Rightarrow> pyfloat \<Rightarrow> pyfloat" where
  "fsub a b = fadd a (fneg b)"

fun fmul :: "pyfloat \<Rightarrow> pyfloat \<Rightarrow> pyfloat" where
  "fmul (Fin a) (Fin b) = fl (a * b)"
| "fmul NaN _ = NaN"
| "fmul _ NaN = NaN"
| "fmul (Fin a) PInf = (if a = 0 then NaN else if 0 < a then PInf else NInf)"
| "fmul (Fin a) NInf = (if a = 0 then NaN else if 0 < a then NInf else PInf)"
| "fmul PInf (Fin b) = (if b = 0 then NaN else if 0 < b then PInf else NInf)"
| "fmul NInf (Fin b) = (if b = 0 then NaN else if 0 < b then NInf else PInf)"
| "fmul PInf PInf = PInf"
| "fmul NInf NInf = PInf"
| "fmul PInf NInf = NInf"
| "fmul NInf PInf = NInf"

text \<open>Python raises \<^verbatim>\<open>ZeroDivisionError\<close> for a float division by zero, before anything else.\<close>

fun fquot :: "pyfloat \<Rightarrow> rat \<Rightarrow> pyfloat" where
  "fquot (Fin x) b = fl (x / b)"
| "fquot PInf b = (if 0 < b then PInf else NInf)"
| "fquot NInf b = (if 0 < b then NInf else PInf)"
| "fquot NaN b = NaN"

fun fdiv :: "pyfloat \<Rightarrow> pyfloat \<Rightarrow> exn + pyfloat" where
  "fdiv a (Fin b) = (if b = 0 then Inl ZeroDivisionError else Inr (fquot a b))"
| "fdiv a NaN = Inr NaN"
| "fdiv (Fin x) _ = Inr (Fin 0)"
| "fdiv _ _ = Inr NaN"

text \<open>The comparisons \<^verbatim>\<open><=\<close> and \<^verbatim>\<open><\<close>; every comparison with a NaN is false.\<close>

fun fle :: "pyfloat \<Rightarrow> pyfloat \<Rightarrow> bool" where
  "fle NaN _ = False"
| "fle _ NaN = False"
| "fle NInf _ = True"
| "fle _ PInf = True"
| "fle (Fin a) (Fin b) = (a \<le> b)"
| "fle PInf _ = False"
| "fle _ NInf = False"

fun flt :: "pyfloat \<Rightarrow> pyfloat \<Rightarrow> bool" where
  "flt NaN _ = False"
| "flt _ NaN = False"
| "flt (Fin a) (Fin b) = (a < b)"
| "flt PInf _ = False"
| "flt _ NInf = False"
| "flt NInf _ = True"
| "flt _ PInf = True"

definition fge :: "pyfloat \<Rightarrow> pyfloat \<Rightarrow> bool" where
  "fge a b = fle b a"

text \<open>
  \<^verbatim>\<open>a / b\<close> on two Python ints is the correctly rounded exact quotient;
  \<^verbatim>\<open>float(i)\<close> is the correctly rounded int.  Both raise \<^verbatim>\<open>OverflowError\<close>
  when the result is too large for a float.  \<^verbatim>\<open>int(x)\<close> truncates towards zero.
\<close>

definition int_truediv :: "int \<Rightarrow> int \<Rightarrow> exn + pyfloat" where
  "int_truediv a b =
     (if b = 0 then Inl ZeroDivisionError
      else case fl (of_int a / of_int b) of Fin q \<Rightarrow> Inr (Fin q) | _ \<Rightarrow> Inl OverflowError)"

definition float_of_int :: "int \<Rightarrow> exn + pyfloat" where
  "float_of_int i = (case fl (of_int i) of Fin q \<Rightarrow> Inr (Fin q) | _ \<Rightarrow> Inl OverflowError)"

fun py_int :: "pyfloat \<Rightarrow> exn + int" where
  "py_int (Fin q) = Inr (if 0 \<le> q then \<lfloor>q\<rfloor> else - \<lfloor>- q\<rfloor>)"
| "py_int NaN = Inl ValueError"
| "py_int _ = Inl OverflowError"

text \<open>\<^verbatim>\<open>min(a, b)\<close> returns \<^verbatim>\<open>a\<close> unless \<^verbatim>\<open>b < a\<close>.\<close>

definition py_min :: "pyfloat \<Rightarrow> pyfloat \<Rightarrow> pyfloat" where
  "py_min a b = (if flt b a then b else a)"

text \<open>
  \<^verbatim>\<open>sum(iterable)\<close> starts from the int \<^verbatim>\<open>0\<close> and adds the items from left to
  right (the summation of the language reference and of CPython before 3.12).
\<close>

definition py_sum :: "pyfloat list \<Rightarrow> pyfloat" where
  "py_sum xs = foldl fadd (Fin 0) xs"

subsection \<open>Decoded JSON and the dynamic operations on it\<close>

text \<open>
  The values the program handles are decoded JSON documents, \<^verbatim>\<open>None\<close>, and
  dictionaries and strings built from them.  A dictionary is an association
  list with distinct keys in insertion order.
\<close>

datatype json =
    JNull
  | JBool bool
  | JInt int
  | JFloat pyfloat
  | JStr string
  | JList "json list"
  | JObj "(string \<times> json) list"

text \<open>Truth value testing (\<^verbatim>\<open>if x\<close>, \<^verbatim>\<open>not x\<close>, \<^verbatim>\<open>x and y\<close>).\<close>

fun truthy :: "json \<Rightarrow> bool" where
  "truthy JNull = False"
| "truthy (JBool b) = b"
| "truthy (JInt i) = (i \<noteq> 0)"
| "truthy (JFloat (Fin q)) = (q \<noteq> 0)"
| "truthy (JFloat _) = True"
| "truthy (JStr s) = (s \<noteq> [])"
| "truthy (JList xs) = (xs \<noteq> [])"
| "truthy (JObj kvs) = (kvs \<noteq> [])"

text \<open>\<^verbatim>\<open>x.get(key, default)\<close>: only a dict has the method.\<close>

fun dict_get :: "json \<Rightarrow> string \<Rightarrow> json \<Rightarrow> exn + json" where
  "dict_get (JObj kvs) k d = Inr (case map_of kvs k of Some v \<Rightarrow> v | None \<Rightarrow> d)"
| "dict_get _ k d = Inl AttributeError"

text \<open>\<^verbatim>\<open>x[key]\<close> with a string key, and \<^verbatim>\<open>x[key] = v\<close>.\<close>

fun getitem_key :: "json \<Rightarrow> string \<Rightarrow> exn + json" where
  "getitem_key (JObj kvs) k = (case map_of kvs k of Some v \<Rightarrow> Inr v | None \<Rightarrow> Inl KeyError)"
| "getitem_key _ k = Inl TypeError"

fun setitem_key :: "json \<Rightarrow> string \<Rightarrow> json \<Rightarrow> exn + json" where
  "setitem_key (JObj kvs) k v = Inr (JObj (AList.update k v kvs))"
| "setitem_key _ k v = Inl TypeError"

text \<open>\<^verbatim>\<open>xs[i]\<close> on a Python sequence: a negative index counts from the end.\<close>

definition seq_index :: "'a list \<Rightarrow> int \<Rightarrow> exn + 'a" where
  "seq_index xs i =
     (if 0 \<le> i
      then (if nat i < length xs then Inr (xs ! nat i) else Inl IndexError)
      else (if nat (- i) \<le> length xs then Inr (xs ! (length xs - nat (- i)))
            else Inl IndexError))"

text \<open>\<^verbatim>\<open>x[i]\<close> with an int index; the keys of a decoded JSON object are strings.\<close>

fun getitem_int :: "json \<Rightarrow> int \<Rightarrow> exn + json" where
  "getitem_int (JList xs) i = seq_index xs i"
| "getitem_int (JStr s) i = ebind (seq_index s i) (\<lambda>c. Inr (JStr [c]))"
| "getitem_int (JObj kvs) i = Inl KeyError"
| "getitem_int _ i = Inl TypeError"

fun py_len :: "json \<Rightarrow> exn + nat" where
  "py_len (JList xs) = Inr (length xs)"
| "py_len (JStr s) = Inr (length s)"
| "py_len (JObj kvs) = Inr (length kvs)"
| "py_len _ = Inl TypeError"

text \<open>The items a \<^verbatim>\<open>for\<close> loop or a comprehension visits.\<close>

fun py_iter :: "json \<Rightarrow> exn + json list" where
  "py_iter (JList xs) = Inr xs"
| "py_iter (JStr s) = Inr (map (\<lambda>c. JStr [c]) s)"
| "py_iter (JObj kvs) = Inr (map (\<lambda>kv. JStr (fst kv)) kvs)"
| "py_iter _ = Inl TypeError"

text \<open>\<^verbatim>\<open>s.split("/")\<close> and \<^verbatim>\<open>s.lower()\<close> (on ASCII letters), methods of \<^verbatim>\<open>str\<close> only.\<close>

fun split_on :: "char \<Rightarrow> string \<Rightarrow> string list" where
  "split_on c [] = [[]]"
| "split_on c (x # xs) =
     (if x = c then [] # split_on c xs
      else (case split_on c xs of w # ws \<Rightarrow> (x # w) # ws | [] \<Rightarrow> [[x]]))"

fun py_split_slash :: "json \<Rightarrow> exn + string list" where
  "py_split_slash (JStr s) = Inr (split_on CHR ''/'' s)"
| "py_split_slash _ = Inl AttributeError"

definition lower_char :: "char \<Rightarrow> char" where
  "lower_char c =
     (case map_of (zip ''ABCDEFGHIJKLMNOPQRSTUVWXYZ'' ''abcdefghijklmnopqrstuvwxyz'') c of
        Some d \<Rightarrow> d | None \<Rightarrow> c)"

fun py_lower :: "json \<Rightarrow> exn + string" where
  "py_lower (JStr s) = Inr (map lower_char s)"
| "py_lower _ = Inl AttributeError"

subsection \<open>Numbers\<close>

text \<open>
  A Python number of this program is an int (unbounded) or a float.
  \<^verbatim>\<open>a - b\<close> and \<^verbatim>\<open>a / b\<close> are exact integer subtraction and
  correctly rounded integer division on two ints; when one operand is a float
  the other is converted to float first (\<^verbatim>\<open>OverflowError\<close> for an int beyond
  the float range) and the float operation is applied.
\<close>

datatype pynum = PInt int | PFloat pyfloat

fun to_float :: "pynum \<Rightarrow> exn + pyfloat" where
  "to_float (PInt i) = float_of_int i"
| "to_float (PFloat f) = Inr f"

fun py_sub :: "pynum \<Rightarrow> pynum \<Rightarrow> exn + pynum" where
  "py_sub (PInt i) (PInt j) = Inr (PInt (i - j))"
| "py_sub x y = ebind (to_float x) (\<lambda>fx. ebind (to_float y) (\<lambda>fy. Inr (PFloat (fsub fx fy))))"

fun num_truediv :: "pynum \<Rightarrow> pynum \<Rightarrow> exn + pyfloat" where
  "num_truediv (PInt i) (PInt j) = int_truediv i j"
| "num_truediv x y = ebind (to_float x) (\<lambda>fx. ebind (to_float y) (\<lambda>fy. fdiv fx fy))"

text \<open>
  \<^verbatim>\<open>a / b\<close> on decoded JSON values.  Numbers are ints (a bool counts as 0 or 1)
  or floats; any other operand raises \<^verbatim>\<open>TypeError\<close>.
\<close>

fun as_num :: "json \<Rightarrow> pynum option" where
  "as_num (JInt i) = Some (PInt i)"
| "as_num (JBool b) = Some (PInt (if b then 1 else 0))"
| "as_num (JFloat f) = Some (PFloat f)"
| "as_num _ = None"

definition py_truediv :: "json \<Rightarrow> json \<Rightarrow> exn + pyfloat" where
  "py_truediv a b =
     (case (as_num a, as_num b) of
        (Some x, Some y) \<Rightarrow> num_truediv x y
      | _ \<Rightarrow> Inl TypeError)"

section \<open>The outside world\<close>

text \<open>
  The program talks to five HTTP services and to the \<^verbatim>\<open>pycountry\<close> database.
  They are a parameter of the model: \<open>http w r\<close> is the outcome of
  \<^verbatim>\<open>requests.get\<close> for the request \<open>r\<close> (identified by the service and by
  the values the source puts into the URL or the query), and \<open>pycountry w name\<close>
  is the \<^verbatim>\<open>alpha_3\<close> code of the first fuzzy match, or \<open>None\<close> when
  \<^verbatim>\<open>search_fuzzy\<close> raises \<^verbatim>\<open>LookupError\<close>.  A response carries its status code
  and its decoded JSON body.
\<close>

datatype request =
    Nominatim string
  | TeleportLocations json json
  | TeleportDetails string
  | WorldBankPopulation string
  | WorldBankArea string
  | PoliceCrimes json json
  | Overpass nat json json

datatype response = ConnectionFailed | Response nat json

record world =
  http :: "request \<Rightarrow> response"
  pycountry :: "string \<Rightarrow> string option"

definition requests_get :: "world \<Rightarrow> request \<Rightarrow> exn + (nat \<times> json)" where
  "requests_get w r =
     (case http w r of ConnectionFailed \<Rightarrow> Inl RequestException | Response st body \<Rightarrow> Inr (st, body))"

text \<open>\<^verbatim>\<open>response.raise_for_status()\<close> raises \<^verbatim>\<open>HTTPError\<close> for a 4xx or 5xx status.\<close>

definition raise_for_status :: "nat \<Rightarrow> exn + unit" where
  "raise_for_status st = (if 400 \<le> st \<and> st < 600 then Inl RequestException else Inr ())"

definition is_request_exception :: "exn \<Rightarrow> bool" where
  "is_request_exception e = (e = RequestException)"

section \<open>The functions of main.py\<close>

definition call_api :: "world \<Rightarrow> request \<Rightarrow> exn + json" where
  "call_api w r =
     ebind (requests_get w r) (\<lambda>(status_code, body).
       if status_code \<noteq> 200 then Inl (HTTPException status_code) else Inr body)"

text \<open>\<^verbatim>\<open>result["type"] in accepted_place_types\<close>: membership in a set hashes the value.\<close>

definition accepted_place_types :: "string list" where
  "accepted_place_types = [''residential'', ''postcode'', ''city'']"

fun in_accepted_place_types :: "json \<Rightarrow> exn + bool" where
  "in_accepted_place_types (JStr t) = Inr (t \<in> set accepted_place_types)"
| "in_accepted_place_types (JList xs) = Inl TypeError"
| "in_accepted_place_types (JObj kvs) = Inl TypeError"
| "in_accepted_place_types _ = Inr False"

definition get_address_details :: "world \<Rightarrow> string \<Rightarrow> exn + (json \<times> bool \<times> string)" where
  "get_address_details w address =
     ebind (call_api w (Nominatim address)) (\<lambda>data.
       if \<not> truthy data
       then Inr (JObj [], False, ''The address: '' @ address @ '' was not found'')
       else
         ebind (getitem_int data 0) (\<lambda>result.
         ebind (getitem_key result ''address'') (\<lambda>address_details.
         ebind (getitem_key result ''lat'') (\<lambda>lat.
         ebind (setitem_key address_details ''lat'' lat) (\<lambda>address_details.
         ebind (getitem_key result ''lon'') (\<lambda>lon.
         ebind (setitem_key address_details ''lon'' lon) (\<lambda>address_details.
         ebind (getitem_key result ''type'') (\<lambda>place_type.
         ebind (in_accepted_place_types place_type) (\<lambda>accepted.
           if accepted then Inr (address_details, True, ''Address is valid'')
           else Inr (JObj [], False,
                  ''The address: '' @ address @ '' is invalid, please enter a residential address'')
         )))))))))"

definition get_valid_address_details :: "world \<Rightarrow> string \<Rightarrow> exn + json" where
  "get_valid_address_details w address =
     ebind (get_address_details w address) (\<lambda>(details, is_valid, message).
       if \<not> is_valid then Inr (JStr message) else Inr details)"

subsection \<open>Population density\<close>

fun scan_items :: "string \<Rightarrow> json list \<Rightarrow> json \<Rightarrow> exn + json" where
  "scan_items label [] found = Inr found"
| "scan_items label (item # items) found =
     (case getitem_key item ''label'' of
        Inl e \<Rightarrow> Inl e
      | Inr l \<Rightarrow>
          if l = JStr label
          then (case dict_get item ''float_value'' JNull of
                  Inl e \<Rightarrow> Inl e
                | Inr v \<Rightarrow> scan_items label items v)
          else scan_items label items found)"

definition category_items :: "json \<Rightarrow> exn + json list" where
  "category_items category = ebind (getitem_key category ''data'') py_iter"

fun scan_categories :: "json list \<Rightarrow> json \<times> json \<Rightarrow> exn + (json \<times> json)" where
  "scan_categories [] pa = Inr pa"
| "scan_categories (category # categories) pa =
     (case getitem_key category ''label'' of
        Inl e \<Rightarrow> Inl e
      | Inr l \<Rightarrow>
          if l = JStr ''Population''
          then (case ebind (category_items category)
                       (\<lambda>items. scan_items ''Population'' items (fst pa)) of
                  Inl e \<Rightarrow> Inl e
                | Inr population \<Rightarrow> scan_categories categories (population, snd pa))
          else if l = JStr ''Geography''
          then (case ebind (category_items category)
                       (\<lambda>items. scan_items ''Area in square kilometers'' items (snd pa)) of
                  Inl e \<Rightarrow> Inl e
                | Inr area \<Rightarrow> scan_categories categories (fst pa, area))
          else scan_categories categories pa)"

text \<open>\<^verbatim>\<open>if population and area: return int(population / area)\<close>, else the function ends and returns \<^verbatim>\<open>None\<close>.\<close>

definition density_of :: "json \<Rightarrow> json \<Rightarrow> exn + int option" where
  "density_of population area =
     (if truthy population \<and> truthy area
      then ebind (py_truediv population area) (\<lambda>q. ebind (py_int q) (\<lambda>d. Inr (Some d)))
      else Inr None)"

definition get_urban_area_density :: "world \<Rightarrow> json \<Rightarrow> exn + int option" where
  "get_urban_area_density w address_details =
     ebind (dict_get address_details ''lat'' JNull) (\<lambda>lat.
     ebind (dict_get address_details ''lon'' JNull) (\<lambda>lon.
       if \<not> truthy lat \<or> \<not> truthy lon then Inr None
       else try_except
         (ebind (requests_get w (TeleportLocations lat lon)) (\<lambda>(status, data).
          ebind (raise_for_status status) (\<lambda>_.
          ebind (dict_get data ''_links'' (JObj [])) (\<lambda>links.
          ebind (dict_get links ''ua:item'' (JObj [])) (\<lambda>item.
          ebind (dict_get item ''href'' JNull) (\<lambda>urban_area_link.
            if \<not> truthy urban_area_link then Inr None
            else
              ebind (py_split_slash urban_area_link) (\<lambda>parts.
              ebind (seq_index parts (- 2)) (\<lambda>urban_area_slug.
              ebind (requests_get w (TeleportDetails urban_area_slug)) (\<lambda>(status, details).
              ebind (raise_for_status status) (\<lambda>_.
              ebind (dict_get details ''categories'' (JList [])) (\<lambda>cs.
              ebind (py_iter cs) (\<lambda>categories.
              ebind (scan_categories categories (JNull, JNull)) (\<lambda>(population, area).
                density_of population area)))))))))))))
         is_request_exception
         (Inr None)))"

text \<open>\<^verbatim>\<open>data[1][0]['value'] if len(data) > 1 else None\<close>\<close>

definition indicator_value :: "json \<Rightarrow> exn + json" where
  "indicator_value data =
     ebind (py_len data) (\<lambda>n.
       if n > 1
       then ebind (getitem_int data 1) (\<lambda>row.
            ebind (getitem_int row 0) (\<lambda>entry. getitem_key entry ''value''))
       else Inr JNull)"

text \<open>
  \<^verbatim>\<open>pycountry.countries.search_fuzzy(name)\<close> calls \<^verbatim>\<open>name.strip()\<close>, which
  only a string has.
\<close>

definition get_country_density :: "world \<Rightarrow> json \<Rightarrow> exn + int option" where
  "get_country_density w address_details =
     ebind (dict_get address_details ''country'' (JStr [])) (\<lambda>country_name.
       if \<not> truthy country_name then Inr None
       else case country_name of
         JStr name \<Rightarrow>
           (case pycountry w name of
              None \<Rightarrow> Inr None
            | Some country_code \<Rightarrow>
                try_except
                  (ebind (requests_get w (WorldBankPopulation country_code)) (\<lambda>(status, pop_data).
                   ebind (raise_for_status status) (\<lambda>_.
                   ebind (indicator_value pop_data) (\<lambda>population.
                   ebind (requests_get w (WorldBankArea country_code)) (\<lambda>(status, area_data).
                   ebind (raise_for_status status) (\<lambda>_.
                   ebind (indicator_value area_data) (\<lambda>area.
                     density_of population area)))))))
                  (\<lambda>e. e = RequestException \<or> e = KeyError \<or> e = IndexError)
                  (Inr None))
       | _ \<Rightarrow> Inl AttributeError)"

definition get_population_density_score :: "world \<Rightarrow> json \<Rightarrow> exn + int" where
  "get_population_density_score w address_details =
     ebind (get_urban_area_density w address_details) (\<lambda>density.
       case density of
         Some d \<Rightarrow> Inr d
       | None \<Rightarrow>
           ebind (get_country_density w address_details) (\<lambda>density.
             Inr (case density of Some d \<Rightarrow> d | None \<Rightarrow> 5000)))"

subsection \<open>Crime rate\<close>

text \<open>
  The result is the int \<^verbatim>\<open>25\<close>, the int \<^verbatim>\<open>100\<close> or a float; the ints are
  represented by the floats of the same value.
\<close>

definition get_crime_score :: "world \<Rightarrow> json \<Rightarrow> exn + pyfloat" where
  "get_crime_score w address_details =
     ebind (dict_get address_details ''lat'' JNull) (\<lambda>lat.
     ebind (dict_get address_details ''lon'' JNull) (\<lambda>lon.
       if \<not> truthy lat \<or> \<not> truthy lon then Inr (Fin 25)
       else try_except
         (ebind (call_api w (PoliceCrimes lat lon)) (\<lambda>crimes.
          ebind (py_len crimes) (\<lambda>total_crimes.
          ebind (int_truediv (int total_crimes) 500) (\<lambda>q.
            Inr (py_min (fmul q (Fin 100)) (Fin 100))))))
         is_request_exception
         (Inr (Fin 25))))"

subsection \<open>Residential ratio\<close>

fun building_tags :: "json list \<Rightarrow> exn + string list" where
  "building_tags [] = Inr []"
| "building_tags (el # els) =
     (case ebind (dict_get el ''tags'' (JObj [])) (\<lambda>tags.
           ebind (dict_get tags ''building'' (JStr [])) py_lower) of
        Inl e \<Rightarrow> Inl e
      | Inr b \<Rightarrow> (case building_tags els of Inl e \<Rightarrow> Inl e | Inr bs \<Rightarrow> Inr (b # bs)))"

text \<open>\<^verbatim>\<open>'residential' in b or b in ['house', 'apartments', 'detached', 'semidetached_house']\<close>\<close>

definition is_residential :: "string \<Rightarrow> bool" where
  "is_residential b =
     (sublist ''residential'' b
      \<or> b \<in> set [''house'', ''apartments'', ''detached'', ''semidetached_house''])"

definition get_residential_ratio :: "world \<Rightarrow> json \<Rightarrow> exn + pyfloat" where
  "get_residential_ratio w address =
     ebind (dict_get address ''lat'' JNull) (\<lambda>lat.
     ebind (dict_get address ''lon'' JNull) (\<lambda>lon.
     ebind (call_api w (Overpass 200 lat lon)) (\<lambda>data.
     ebind (dict_get data ''elements'' (JList [])) (\<lambda>els.
     ebind (py_iter els) (\<lambda>elements.
     ebind (building_tags elements) (\<lambda>tags.
       if tags = [] then Inr (Fin 0)
       else
         let residential_count = length (filter is_residential tags);
             total_count = length tags
         in if total_count > 0 then int_truediv (int residential_count) (int total_count)
            else Inr (Fin 0)))))))"

subsection \<open>The metric record\<close>

text \<open>
  \<^verbatim>\<open>evaluate_neighborhood(data: dict[str, float])\<close>: a metric record maps metric
  names to floats, as the annotation says.  The int values the pipeline puts
  into it (the density, the placeholders) are represented by the floats of the
  same value.  \<^verbatim>\<open>normalize\<close> treats an int below \<open>2 ^ 53\<close> in magnitude
  and the float of the same value alike (lemma \<open>normalize_int_value\<close> below);
  a density of \<open>2 ^ 53\<close> people per square kilometre or more is outside this
  representation.
\<close>

type_synonym metric_record = "string \<rightharpoonup> pyfloat"

definition get_neighbourhood_data :: "world \<Rightarrow> json \<Rightarrow> exn + metric_record" where
  "get_neighbourhood_data w address_details =
     ebind (get_population_density_score w address_details) (\<lambda>population_density.
     ebind (get_crime_score w address_details) (\<lambda>crime_rate.
     ebind (get_residential_ratio w address_details) (\<lambda>residential_ratio.
       Inr (map_of
         [(''population_density'', Fin (of_int population_density)),
          (''crime_rate'', crime_rate),
          (''income'', Fin 60000),
          (''residential_ratio'', residential_ratio),
          (''noise_level'', Fin 30),
          (''healthcare_access'', Fin 85),
          (''community_engagement'', Fin 70),
          (''environmental_quality'', Fin 75)]))))"

definition get_address_data :: "world \<Rightarrow> json \<Rightarrow> exn + metric_record" where
  "get_address_data w address = get_neighbourhood_data w address"

subsection \<open>Scoring\<close>

definition CRITERIA_WEIGHTS :: "(string \<times> pyfloat) list" where
  "CRITERIA_WEIGHTS =
     [(''population_density'', float_lit (2 / 10)),
      (''crime_rate'', float_lit (2 / 10)),
      (''income'', float_lit (15 / 100)),
      (''residential_ratio'', float_lit (8 / 100)),
      (''noise_level'', float_lit (5 / 100)),
      (''healthcare_access'', float_lit (3 / 10)),
      (''community_engagement'', float_lit (1 / 10)),
      (''environmental_quality'', float_lit (12 / 100))]"

text \<open>
  \<^verbatim>\<open>normalize(value, min_val, max_val, invert=False)\<close> is untyped: its
  arguments are ints or floats.  The quotient is a float in every case, and in
  \<^verbatim>\<open>1 - norm\<close> the int 1 is converted to the float 1.0.
\<close>

definition normalize :: "pynum \<Rightarrow> pynum \<Rightarrow> pynum \<Rightarrow> bool \<Rightarrow> exn + pyfloat" where
  "normalize value min_val max_val invert =
     ebind (py_sub value min_val) (\<lambda>above_min.
     ebind (py_sub max_val min_val) (\<lambda>width.
     ebind (num_truediv above_min width) (\<lambda>norm.
       Inr (if invert then fsub (Fin 1) norm else norm))))"

definition calculate_rating :: "pyfloat \<Rightarrow> string" where
  "calculate_rating score =
     (if fge score (float_lit (15 / 10)) then ''Excellent''
      else if fge score (float_lit (8 / 10)) then ''Good''
      else if fge score (float_lit (4 / 10)) then ''Average''
      else if fge score (float_lit (2 / 10)) then ''Poor''
      else ''Very Poor'')"

record evaluation =
  rating :: string
  score :: pyfloat

text \<open>\<^verbatim>\<open>d[key]\<close> on the dictionaries of the scoring code.\<close>

definition lookup :: "('k \<rightharpoonup> 'v) \<Rightarrow> 'k \<Rightarrow> exn + 'v" where
  "lookup d k = (case d k of None \<Rightarrow> Inl KeyError | Some v \<Rightarrow> Inr v)"

text \<open>\<^verbatim>\<open>CRITERIA_WEIGHTS[k] * normalized_scores[k] for k in CRITERIA_WEIGHTS\<close>\<close>

fun weighted_terms :: "string list \<Rightarrow> (string \<times> pyfloat) list \<Rightarrow> exn + pyfloat list" where
  "weighted_terms [] normalized_scores = Inr []"
| "weighted_terms (k # ks) normalized_scores =
     (case ebind (lookup (map_of CRITERIA_WEIGHTS) k) (\<lambda>weight.
           ebind (lookup (map_of normalized_scores) k) (\<lambda>n. Inr (fmul weight n))) of
        Inl e \<Rightarrow> Inl e
      | Inr t \<Rightarrow>
          (case weighted_terms ks normalized_scores of
             Inl e \<Rightarrow> Inl e
           | Inr ts \<Rightarrow> Inr (t # ts)))"

definition evaluate_neighborhood :: "metric_record \<Rightarrow> exn + evaluation" where
  "evaluate_neighborhood data =
     ebind (lookup data ''population_density'') (\<lambda>v.
     ebind (normalize (PFloat v) (PInt 100) (PInt 10000) False) (\<lambda>population_density.
     ebind (lookup data ''crime_rate'') (\<lambda>v.
     ebind (normalize (PFloat v) (PInt 0) (PInt 500) True) (\<lambda>crime_rate.
     ebind (lookup data ''income'') (\<lambda>v.
     ebind (normalize (PFloat v) (PInt 20000) (PInt 150000) False) (\<lambda>income.
     ebind (lookup data ''residential_ratio'') (\<lambda>v.
     ebind (normalize (PFloat v) (PInt 0) (PInt 1) False) (\<lambda>residential_ratio.
     ebind (lookup data ''noise_level'') (\<lambda>v.
     ebind (normalize (PFloat v) (PInt 0) (PInt 100) True) (\<lambda>noise_level.
     ebind (lookup data ''healthcare_access'') (\<lambda>v.
     ebind (normalize (PFloat v) (PInt 0) (PInt 100) False) (\<lambda>healthcare_access.
     ebind (lookup data ''community_engagement'') (\<lambda>v.
     ebind (normalize (PFloat v) (PInt 0) (PInt 100) False) (\<lambda>community_engagement.
     ebind (lookup data ''environmental_quality'') (\<lambda>v.
     ebind (normalize (PFloat v) (PInt 0) (PInt 100) False) (\<lambda>environmental_quality.
       let normalized_scores =
             [(''population_density'', population_density),
              (''crime_rate'', crime_rate),
              (''income'', income),
              (''residential_ratio'', residential_ratio),
              (''noise_level'', noise_level),
              (''healthcare_access'', healthcare_access),
              (''community_engagement'', community_engagement),
              (''environmental_quality'', environmental_quality)]
       in ebind (weighted_terms (map fst CRITERIA_WEIGHTS) normalized_scores) (\<lambda>terms.
            let total_score = py_sum terms
            in Inr \<lparr>rating = calculate_rating total_score, score = total_score\<rparr>
     )))))))))))))))))"

subsection \<open>The two endpoints\<close>

record address_entry =
  name :: string
  details :: json
  data :: metric_record

text \<open>An entry of the batch response, \<^verbatim>\<open>{"address": ..., "data": ...}\<close>.\<close>

record batch_result =
  address :: string
  data_r :: evaluation

fun get_algorithm_results :: "address_entry list \<Rightarrow> exn + batch_result list" where
  "get_algorithm_results [] = Inr []"
| "get_algorithm_results (a # addresses) =
     (case evaluate_neighborhood (data a) of
        Inl e \<Rightarrow> Inl e
      | Inr ev \<Rightarrow>
          (case get_algorithm_results addresses of
             Inl e \<Rightarrow> Inl e
           | Inr results \<Rightarrow> Inr (\<lparr>address = name a, data_r = ev\<rparr> # results)))"

text \<open>
  The response of the single-address endpoint is the rejection message or the
  evaluation (\<^verbatim>\<open>type(address_details) == str\<close> tells them apart).
\<close>

datatype single_response = Message string | Evaluation evaluation

definition get_single_address_probability :: "world \<Rightarrow> string \<Rightarrow> exn + single_response" where
  "get_single_address_probability w requested_address =
     ebind (get_valid_address_details w requested_address) (\<lambda>address_details.
       case address_details of
         JStr message \<Rightarrow> Inr (Message message)
       | _ \<Rightarrow>
           ebind (get_address_data w address_details) (\<lambda>address_data.
           ebind (evaluate_neighborhood address_data) (\<lambda>ev. Inr (Evaluation ev))))"

text \<open>The first loop of the batch endpoint: validate every address, in order.\<close>

fun validate_all :: "world \<Rightarrow> string list \<Rightarrow> exn + address_entry list" where
  "validate_all w [] = Inr []"
| "validate_all w (requested_address # rest) =
     (case get_valid_address_details w requested_address of
        Inl e \<Rightarrow> Inl e
      | Inr d \<Rightarrow>
          (case validate_all w rest of
             Inl e \<Rightarrow> Inl e
           | Inr all_addresses \<Rightarrow>
               Inr (\<lparr>name = requested_address, details = d, data = Map.empty\<rparr> # all_addresses)))"

text \<open>The second loop: fetch the metrics of every entry, in order.\<close>

fun fetch_all :: "world \<Rightarrow> address_entry list \<Rightarrow> exn + address_entry list" where
  "fetch_all w [] = Inr []"
| "fetch_all w (a # all_addresses) =
     (case get_address_data w (details a) of
        Inl e \<Rightarrow> Inl e
      | Inr d \<Rightarrow>
          (case fetch_all w all_addresses of
             Inl e \<Rightarrow> Inl e
           | Inr rest \<Rightarrow> Inr (a\<lparr>data := d\<rparr> # rest)))"

definition get_many_addresses_probability :: "world \<Rightarrow> string list \<Rightarrow> exn + batch_result list" where
  "get_many_addresses_probability w requested_addresses =
     ebind (validate_all w requested_addresses) (\<lambda>all_addresses.
     ebind (fetch_all w all_addresses) get_algorithm_results)"

section \<open>The scoring rule as the specification words it\<close>

text \<open>
  The specification's normalization table (metric: min, max, invert) and its
  weights, in the order of the table; \<open>spec_normalized\<close> is "normalize the raw
  value using that metric's fixed range", and \<open>weighted_total\<close> is
  "total = sum of weight[k] * normalized[k] over all 8 keys".
\<close>

definition normalization_table :: "(string \<times> int \<times> int \<times> bool) list" where
  "normalization_table =
     [(''population_density'', 100, 10000, False),
      (''crime_rate'', 0, 500, True),
      (''income'', 20000, 150000, False),
      (''residential_ratio'', 0, 1, False),
      (''noise_level'', 0, 100, True),
      (''healthcare_access'', 0, 100, False),
      (''community_engagement'', 0, 100, False),
      (''environmental_quality'', 0, 100, False)]"

definition spec_weights :: "rat list" where
  "spec_weights = [20 / 100, 20 / 100, 15 / 100, 8 / 100, 5 / 100, 30 / 100, 10 / 100, 12 / 100]"

definition spec_normalized :: "metric_record \<Rightarrow> string \<times> int \<times> int \<times> bool \<Rightarrow> exn + pyfloat" where
  "spec_normalized record row =
     (case row of (k, mn, mx, invert) \<Rightarrow>
        (case record k of
           None \<Rightarrow> Inl KeyError
         | Some v \<Rightarrow> normalize (PFloat v) (PInt mn) (PInt mx) invert))"

definition weighted_total :: "pyfloat list \<Rightarrow> pyfloat" where
  "weighted_total ns = py_sum (map (\<lambda>(w, n). fmul (float_lit w) n) (zip spec_weights ns))"

text \<open>
  The residential tag set of the specification,
  \<^verbatim>\<open>{residential*, house, apartments, detached, semidetached_house}\<close>: the tags
  that start with \<^verbatim>\<open>residential\<close>, and four fixed tags.
\<close>

definition residential_tag_set :: "string \<Rightarrow> bool" where
  "residential_tag_set t \<longleftrightarrow>
     prefix ''residential'' t \<or> t \<in> set [''house'', ''apartments'', ''detached'', ''semidetached_house'']"

text \<open>The example record of the specification.\<close>

definition example_record :: metric_record where
  "example_record = map_of
     [(''population_density'', Fin 5000),
      (''crime_rate'', Fin 50),
      (''income'', Fin 60000),
      (''residential_ratio'', float_lit (8 / 10)),
      (''noise_level'', Fin 30),
      (''healthcare_access'', Fin 85),
      (''community_engagement'', Fin 70),
      (''environmental_quality'', Fin 75)]"


section \<open>Numbers that are floats\<close>





section \<open>Sample worlds\<close>

text \<open>
  A geocoder that knows a street, a city and a country; three recorded crimes;
  four buildings around every point; no urban-area service; a country
  database that knows the United Kingdom while the World Bank is unreachable.
\<close>

definition baker_street :: json where
  "baker_street = JObj
     [(''lat'', JStr ''51.5226''), (''lon'', JStr ''-0.1571''), (''type'', JStr ''residential''),
      (''address'', JObj [(''road'', JStr ''Baker Street''), (''country'', JStr ''United Kingdom'')])]"

definition oxford :: json where
  "oxford = JObj
     [(''lat'', JStr ''51.7520''), (''lon'', JStr ''-1.2578''), (''type'', JStr ''city''),
      (''address'', JObj [(''city'', JStr ''Oxford''), (''country'', JStr ''United Kingdom'')])]"

definition france :: json where
  "france = JObj
     [(''lat'', JStr ''46.6034''), (''lon'', JStr ''1.8883''), (''type'', JStr ''country''),
      (''address'', JObj [(''country'', JStr ''France'')])]"

definition sample_buildings :: "json list" where
  "sample_buildings =
     [JObj [(''type'', JStr ''way''), (''tags'', JObj [(''building'', JStr ''house'')])],
      JObj [(''type'', JStr ''way''), (''tags'', JObj [(''building'', JStr ''Residential'')])],
      JObj [(''type'', JStr ''way''), (''tags'', JObj [(''building'', JStr ''retail'')])],
      JObj [(''type'', JStr ''way'')]]"

definition sample_world :: world where
  "sample_world =
     \<lparr>http = (\<lambda>r. case r of
          Nominatim q \<Rightarrow>
            Response 200 (JList
              (if q = ''Baker Street, London'' then [baker_street]
               else if q = ''Oxford'' then [oxford]
               else if q = ''France'' then [france]
               else []))
        | PoliceCrimes lat lon \<Rightarrow> Response 200 (JList [JObj [], JObj [], JObj []])
        | Overpass radius lat lon \<Rightarrow> Response 200 (JObj [(''elements'', JList sample_buildings)])
        | _ \<Rightarrow> ConnectionFailed),
      pycountry = (\<lambda>name. if name = ''United Kingdom'' then Some ''GBR'' else None)\<rparr>"

text \<open>The same world with the crime service answering 500, and with the building service unreachable.\<close>

definition crime_service_down :: world where
  "crime_service_down =
     sample_world\<lparr>http := (\<lambda>r. case r of
          PoliceCrimes lat lon \<Rightarrow> Response 500 JNull
        | _ \<Rightarrow> http sample_world r)\<rparr>"

definition building_service_down :: world where
  "building_service_down =
     sample_world\<lparr>http := (\<lambda>r. case r of
          Overpass radius lat lon \<Rightarrow> ConnectionFailed
        | _ \<Rightarrow> http sample_world r)\<rparr>"


definition warehouse_world :: world where
  "warehouse_world =
     sample_world\<lparr>http := (\<lambda>r. case r of
          Overpass radius lat lon \<Rightarrow>
            Response 200 (JObj [(''elements'',
              JList [JObj [(''type'', JStr ''way''),
                           (''tags'', JObj [(''building'', JStr ''non_residential'')])]])])
        | _ \<Rightarrow> http sample_world r)\<rparr>"

definition baker_street_details :: json where
  "baker_street_details = JObj
     [(''road'', JStr ''Baker Street''), (''country'', JStr ''United Kingdom''),
      (''lat'', JStr ''51.5226''), (''lon'', JStr ''-0.1571'')]"

text \<open>
  The lower-cased \<^verbatim>\<open>building\<close> tag of an element of a building-footprint
  response (the empty string when the element carries none), for elements of
  the shape the interface promises: an object whose \<^verbatim>\<open>tags\<close>, if present,
  is an object whose \<^verbatim>\<open>building\<close>, if present, is a string.
\<close>

fun element_tag :: "json \<Rightarrow> string option" where
  "element_tag (JObj kvs) =
     (case map_of kvs ''tags'' of
        None \<Rightarrow> Some []
      | Some (JObj ts) \<Rightarrow>
          (case map_of ts ''building'' of
             None \<Rightarrow> Some []
           | Some (JStr b) \<Rightarrow> Some (map lower_char b)
           | Some _ \<Rightarrow> None)
      | Some _ \<Rightarrow> None)"
| "element_tag _ = None"

definition oxford_details :: json where
  "oxford_details = JObj
     [(''city'', JStr ''Oxford''), (''country'', JStr ''United Kingdom''),
      (''lat'', JStr ''51.7520''), (''lon'', JStr ''-1.2578'')]"

text \<open>The metric record of every valid address in the sample world.\<close>

definition sample_record :: metric_record where
  "sample_record = map_of
     [(''population_density'', Fin 5000),
      (''crime_rate'', Fin (5404319552844595 / 9007199254740992)),
      (''income'', Fin 60000),
      (''residential_ratio'', Fin (1 / 2)),
      (''noise_level'', Fin 30),
      (''healthcare_access'', Fin 85),
      (''community_engagement'', Fin 70),
      (''environmental_quality'', Fin 75)]"

section \<open>Properties of the rounding function\<close>

lemma ebind_Inl [simp]: "ebind (Inl e) f = Inl e"
  by (simp add: ebind_def)

lemma ebind_Inr [simp]: "ebind (Inr x) f = f x"
  by (simp add: ebind_def)

lemma floor_rat_numeral: "\<lfloor>(numeral a / numeral b :: rat)\<rfloor> = numeral a div numeral b"
  using floor_divide_of_int_eq [of "numeral a" "numeral b", where ?'a = rat] by simp

lemma rne_bounds: "\<lfloor>x\<rfloor> \<le> rne x \<and> rne x \<le> \<lfloor>x\<rfloor> + 1"
  by (simp add: rne_def Let_def)

lemma rne_mono:
  assumes "x \<le> y" shows "rne x \<le> rne y"
proof (cases "\<lfloor>x\<rfloor> < \<lfloor>y\<rfloor>")
  case True
  then show ?thesis using rne_bounds [of x] rne_bounds [of y] by linarith
next
  case False
  with floor_mono [OF assms] have e: "\<lfloor>x\<rfloor> = \<lfloor>y\<rfloor>" by simp
  then have "x - of_int \<lfloor>y\<rfloor> \<le> y - of_int \<lfloor>y\<rfloor>" using assms by simp
  then show ?thesis unfolding rne_def Let_def e by auto
qed

lemma rne_of_int: "rne (of_int n) = n"
  by (simp add: rne_def)

lemma expo_up_spec:
  "1 \<le> x \<Longrightarrow> 0 \<le> expo_up x \<and> power_int 2 (expo_up x) \<le> x \<and> x < power_int 2 (expo_up x + 1)"
proof (induction x rule: expo_up.induct)
  case (1 x)
  show ?case
  proof (cases "x < 2")
    case True
    with "1.prems" show ?thesis by (simp add: expo_up.simps [of x])
  next
    case False
    then have h: "1 \<le> x / 2" by simp
    from "1.IH" [OF False h] have ih: "0 \<le> expo_up (x / 2)"
      "power_int 2 (expo_up (x / 2)) \<le> x / 2" "x / 2 < power_int 2 (expo_up (x / 2) + 1)"
      by auto
    have e: "expo_up x = expo_up (x / 2) + 1" using False by (simp add: expo_up.simps [of x])
    have p: "\<And>k::int. power_int (2::rat) (k + 1) = 2 * power_int 2 k"
      by (simp add: power_int_add)
    have "power_int 2 (expo_up (x / 2) + 1) \<le> x"
      using ih(2) by (simp only: p)
    moreover have "x < power_int 2 (expo_up (x / 2) + 1 + 1)"
      using ih(3) by (simp only: p)
    ultimately show ?thesis unfolding e using ih(1) by simp
  qed
qed

lemma expo_down_spec:
  "0 < x \<Longrightarrow> x < 1 \<Longrightarrow> expo_down x < 0 \<and> power_int 2 (expo_down x) \<le> x \<and> x < power_int 2 (expo_down x + 1)"
proof (induction x rule: expo_down.induct)
  case (1 x)
  have c: "\<not> (x \<le> 0 \<or> 1 \<le> x)" using "1.prems" by simp
  have e: "expo_down x = expo_down (2 * x) - 1" using c by (simp add: expo_down.simps [of x])
  have p: "\<And>k::int. power_int (2::rat) (k - 1) = power_int 2 k / 2"
    by (simp add: power_int_diff)
  show ?case
  proof (cases "2 * x < 1")
    case True
    from "1.IH" [OF c _ True] "1.prems" have ih: "expo_down (2 * x) < 0"
      "power_int 2 (expo_down (2 * x)) \<le> 2 * x" "2 * x < power_int 2 (expo_down (2 * x) + 1)"
      by auto
    have q: "power_int (2::rat) (expo_down (2 * x) - 1 + 1) = power_int 2 (expo_down (2 * x))"
      by simp
    have "power_int 2 (expo_down (2 * x) - 1) \<le> x"
      using ih(2) by (simp only: p)
    moreover have "x < power_int 2 (expo_down (2 * x) - 1 + 1)"
      using ih(3) unfolding q by (simp add: power_int_add)
    ultimately show ?thesis unfolding e using ih(1) by simp
  next
    case False
    then have "expo_down (2 * x) = 0" by (simp add: expo_down.simps [of "2 * x"])
    then have e0: "expo_down x = - 1" unfolding e by simp
    show ?thesis unfolding e0 using False "1.prems" by (simp add: power_int_minus)
  qed
qed

lemma expo_spec:
  assumes "0 < x"
  shows "power_int 2 (expo x) \<le> x \<and> x < power_int 2 (expo x + 1)"
  using assms expo_up_spec [of x] expo_down_spec [of x] by (auto simp: expo_def not_le)

lemma expo_mono:
  assumes "0 < x" "x \<le> y" shows "expo x \<le> expo y"
proof (rule ccontr)
  assume "\<not> expo x \<le> expo y"
  then have "expo y + 1 \<le> expo x" by simp
  then have "power_int (2::rat) (expo y + 1) \<le> power_int 2 (expo x)"
    by (rule power_int_increasing) simp
  with expo_spec [of x] expo_spec [of y] assms show False by linarith
qed

lemma round_pos_upper:
  assumes "0 < x"
  shows "round_pos x \<le> power_int 2 (max (expo x) (- 1022) + 1)"
proof -
  define e where "e = max (expo x) (- 1022)"
  define u where "u = power_int (2::rat) (e - 52)"
  have u: "0 < u" by (simp add: u_def zero_less_power_int)
  have "x < power_int 2 (expo x + 1)" using expo_spec [OF assms] by simp
  also have "\<dots> \<le> power_int 2 (e + 1)"
    by (rule power_int_increasing) (simp_all add: e_def)
  finally have "x / u < power_int 2 (e + 1) / u" using u by (simp add: divide_strict_right_mono)
  also have "power_int 2 (e + 1) / u = power_int 2 ((e + 1) - (e - 52))"
    unfolding u_def by (rule power_int_diff [symmetric]) simp
  also have "\<dots> = of_int (2 ^ 53)" by simp
  finally have "rne (x / u) \<le> rne (of_int (2 ^ 53))" by (intro rne_mono) simp
  then have "rne (x / u) \<le> 2 ^ 53" by (simp only: rne_of_int)
  then have "(of_int (rne (x / u)) :: rat) \<le> of_int (2 ^ 53)" by (simp only: of_int_le_iff)
  then have "of_int (rne (x / u)) * u \<le> of_int (2 ^ 53) * u"
    using u by (simp only: mult_le_cancel_right_pos)
  also have "of_int (2 ^ 53) * u = power_int 2 (53 + (e - 52))"
    unfolding u_def by (subst power_int_add) simp_all
  also have "53 + (e - 52) = e + 1" by simp
  finally show ?thesis unfolding round_pos_def Let_def e_def u_def .
qed

lemma round_pos_lower:
  assumes "0 < x" "- 1022 \<le> expo x"
  shows "power_int 2 (expo x) \<le> round_pos x"
proof -
  define e where "e = expo x"
  define u where "u = power_int (2::rat) (e - 52)"
  have m: "max (expo x) (- 1022) = e" using assms by (simp add: e_def)
  have u: "0 < u" by (simp add: u_def zero_less_power_int)
  have "power_int 2 e \<le> x" using expo_spec [OF assms(1)] by (simp add: e_def)
  then have "power_int 2 e / u \<le> x / u" using u by (simp add: divide_right_mono)
  moreover have "power_int 2 e / u = power_int 2 (e - (e - 52))"
    unfolding u_def by (rule power_int_diff [symmetric]) simp
  moreover have "power_int (2::rat) (e - (e - 52)) = of_int (2 ^ 52)" by simp
  ultimately have "rne (of_int (2 ^ 52)) \<le> rne (x / u)" by (intro rne_mono) simp
  then have "2 ^ 52 \<le> rne (x / u)" by (simp only: rne_of_int)
  then have "(of_int (2 ^ 52) :: rat) \<le> of_int (rne (x / u))" by (simp only: of_int_le_iff)
  then have r: "of_int (2 ^ 52) * u \<le> of_int (rne (x / u)) * u"
    using u by (simp only: mult_le_cancel_right_pos)
  have "e = 52 + (e - 52)" by simp
  then have "power_int (2::rat) e = power_int 2 (52 + (e - 52))" by simp
  also have "\<dots> = of_int (2 ^ 52) * u"
    unfolding u_def by (subst power_int_add) simp_all
  also note r
  finally show ?thesis unfolding round_pos_def Let_def m u_def e_def .
qed

lemma round_pos_nonneg:
  assumes "0 < x" shows "0 \<le> round_pos x"
proof -
  define u where "u = power_int (2::rat) (max (expo x) (- 1022) - 52)"
  have u: "0 < u" by (simp add: u_def zero_less_power_int)
  then have "0 \<le> x / u" using assms by simp
  then have "0 \<le> \<lfloor>x / u\<rfloor>" by simp
  then have "0 \<le> rne (x / u)" using rne_bounds [of "x / u"] by linarith
  then show ?thesis unfolding round_pos_def Let_def using u unfolding u_def by simp
qed

lemma round_pos_mono:
  assumes "0 < x" "x \<le> y"
  shows "round_pos x \<le> round_pos y"
proof -
  have y: "0 < y" using assms by simp
  define ex where "ex = max (expo x) (- 1022)"
  define ey where "ey = max (expo y) (- 1022)"
  have le: "ex \<le> ey" using expo_mono [OF assms] by (simp add: ex_def ey_def)
  show ?thesis
  proof (cases "ex = ey")
    case True
    define u where "u = power_int (2::rat) (ex - 52)"
    have u: "0 < u" by (simp add: u_def zero_less_power_int)
    have "x / u \<le> y / u" using assms u by (simp add: divide_right_mono)
    then have "rne (x / u) \<le> rne (y / u)" by (rule rne_mono)
    then have "(of_int (rne (x / u)) :: rat) * u \<le> of_int (rne (y / u)) * u"
      using u by simp
    then show ?thesis
      unfolding round_pos_def Let_def using True unfolding ex_def ey_def u_def by simp
  next
    case False
    with le have lt: "ex + 1 \<le> ey" by simp
    then have ey: "ey = expo y" "- 1022 \<le> expo y" unfolding ex_def ey_def by auto
    have "round_pos x \<le> power_int 2 (ex + 1)"
      using round_pos_upper [OF assms(1)] by (simp add: ex_def)
    also have "\<dots> \<le> power_int 2 ey" by (rule power_int_increasing) (use lt in simp_all)
    also have "\<dots> \<le> round_pos y" using round_pos_lower [OF y ey(2)] by (simp add: ey(1))
    finally show ?thesis .
  qed
qed

lemma fl_pos: "0 < x \<Longrightarrow> fl x = (if 2 ^ 1024 \<le> round_pos x then PInf else Fin (round_pos x))"
  by (simp add: fl_def Let_def)

lemma fl_neg: "x < 0 \<Longrightarrow> fl x = (if 2 ^ 1024 \<le> round_pos (- x) then NInf else Fin (- round_pos (- x)))"
  by (simp add: fl_def Let_def)

lemma fl_zero: "fl 0 = Fin 0"
  by (simp add: fl_def)

lemma fl_mono:
  assumes "x \<le> y" shows "fle (fl x) (fl y)"
proof -
  consider "0 < x" | "y < 0" | "x \<le> 0" "0 \<le> y" by linarith
  then show ?thesis
  proof cases
    case 1
    then have "0 < y" using assms by simp
    with 1 round_pos_mono [OF 1 assms] show ?thesis by (simp add: fl_pos)
  next
    case 2
    then have x: "x < 0" using assms by simp
    have "round_pos (- y) \<le> round_pos (- x)"
      by (rule round_pos_mono) (use 2 assms in simp_all)
    with 2 x show ?thesis by (simp add: fl_neg)
  next
    case 3
    have a: "fle (fl x) (Fin 0)"
    proof (cases "x = 0")
      case True then show ?thesis by (simp add: fl_zero)
    next
      case False
      then have "x < 0" using 3 by simp
      then show ?thesis using round_pos_nonneg [of "- x"] by (simp add: fl_neg)
    qed
    have b: "fle (Fin 0) (fl y)"
    proof (cases "y = 0")
      case True then show ?thesis by (simp add: fl_zero)
    next
      case False
      then have "0 < y" using 3 by simp
      then show ?thesis using round_pos_nonneg [of y] by (simp add: fl_pos)
    qed
    from a b show ?thesis by (cases "fl x"; cases "fl y") auto
  qed
qed

lemma fl_between:
  assumes "lo \<le> x" "x \<le> hi" "fl lo = Fin a" "fl hi = Fin b"
  shows "\<exists>r. fl x = Fin r \<and> a \<le> r \<and> r \<le> b"
  using fl_mono [OF assms(1)] fl_mono [OF assms(2)] assms(3,4)
  by (cases "fl x") auto

lemma fl_neg_eq: "fl (- x) = fneg (fl x)"
proof -
  consider "x = 0" | "0 < x" | "x < 0" by linarith
  then show ?thesis
    by cases (simp_all add: fl_zero fl_pos fl_neg)
qed

text \<open>Evaluation of \<open>fl\<close> at a numeral.\<close>

lemmas fl_eval = fl_def round_pos_def expo_def rne_def Let_def floor_rat_numeral
  expo_up.simps expo_down.simps float_lit_def

text \<open>Every integer below \<open>2 ^ 53\<close> in magnitude is a float.\<close>

lemma fl_of_int_pos:
  assumes "0 < k" "k < 2 ^ 53"
  shows "fl (of_int k) = Fin (of_int k)"
proof -
  define x :: rat where "x = of_int k"
  have x1: "1 \<le> x" and x0: "0 < x" using assms by (simp_all add: x_def)
  define e where "e = expo x"
  have e0: "0 \<le> e" using expo_up_spec [OF x1] x1 by (simp add: e_def expo_def)
  have "power_int 2 e \<le> x" using expo_spec [OF x0] by (simp add: e_def)
  also have "x < 2 ^ 53" using assms unfolding x_def
    by (metis of_int_less_iff of_int_numeral of_int_power)
  finally have "power_int (2::rat) e < power_int 2 53" by simp
  then have "e < 53" by (rule power_int_le_imp_less_exp [rotated]) simp_all
  define n where "n = nat (52 - e)"
  have en: "e - 52 = - int n" using \<open>e < 53\<close> by (simp add: n_def)
  have m: "max (expo x) (- 1022) = e" using e0 by (simp add: e_def)
  have u: "power_int (2::rat) (e - 52) = inverse (2 ^ n)"
    unfolding en by (simp add: power_int_minus)
  have q: "x / inverse (2 ^ n) = of_int (k * 2 ^ n)" by (simp add: x_def field_simps)
  have "round_pos x = of_int (k * 2 ^ n) * inverse (2 ^ n)"
    unfolding round_pos_def Let_def m u q rne_of_int ..
  also have "\<dots> = x" by (simp add: x_def)
  finally have r: "round_pos x = x" .
  have "x < 2 ^ 1024"
  proof -
    have "x < 2 ^ 53" by fact
    also have "(2::rat) ^ 53 \<le> 2 ^ 1024" by (rule power_increasing) simp_all
    finally show ?thesis .
  qed
  then show ?thesis using x0 r unfolding x_def [symmetric] by (simp add: fl_pos)
qed

lemma fl_of_int:
  assumes "\<bar>k\<bar> < 2 ^ 53"
  shows "fl (of_int k) = Fin (of_int k)"
proof -
  consider "k = 0" | "0 < k" | "k < 0" by linarith
  then show ?thesis
  proof cases
    case 1 then show ?thesis by (simp add: fl_zero)
  next
    case 2 then show ?thesis using assms by (intro fl_of_int_pos) simp_all
  next
    case 3
    then have "fl (of_int (- k)) = Fin (of_int (- k))" using assms by (intro fl_of_int_pos) simp_all
    then have "fneg (fl (- of_int k)) = fneg (Fin (- of_int k))" by simp
    then show ?thesis unfolding fl_neg_eq by (cases "fl (of_int k)") simp_all
  qed
qed












section \<open>Normalizer\<close>

lemma float_of_int_exact:
  assumes "\<bar>k\<bar> < 2 ^ 53"
  shows "float_of_int k = Inr (Fin (of_int k))"
  using fl_of_int [OF assms] by (simp add: float_of_int_def)

lemma normalize_float_value:
  assumes "\<bar>mn\<bar> < 2 ^ 53" "\<bar>mx - mn\<bar> < 2 ^ 53" "mx \<noteq> mn"
  shows "normalize (PFloat v) (PInt mn) (PInt mx) invert =
           Inr (if invert then fsub (Fin 1) (fquot (fsub v (Fin (of_int mn))) (of_int (mx - mn)))
                else fquot (fsub v (Fin (of_int mn))) (of_int (mx - mn)))"
  using assms(3) by (simp add: normalize_def float_of_int_exact [OF assms(1)] float_of_int_exact [OF assms(2)])

lemma table_normalize:
  "normalize (PFloat v) (PInt 100) (PInt 10000) invert =
     Inr (if invert then fsub (Fin 1) (fquot (fsub v (Fin 100)) 9900) else fquot (fsub v (Fin 100)) 9900)"
  "normalize (PFloat v) (PInt 0) (PInt 500) invert =
     Inr (if invert then fsub (Fin 1) (fquot (fsub v (Fin 0)) 500) else fquot (fsub v (Fin 0)) 500)"
  "normalize (PFloat v) (PInt 20000) (PInt 150000) invert =
     Inr (if invert then fsub (Fin 1) (fquot (fsub v (Fin 20000)) 130000) else fquot (fsub v (Fin 20000)) 130000)"
  "normalize (PFloat v) (PInt 0) (PInt 1) invert =
     Inr (if invert then fsub (Fin 1) (fquot (fsub v (Fin 0)) 1) else fquot (fsub v (Fin 0)) 1)"
  "normalize (PFloat v) (PInt 0) (PInt 100) invert =
     Inr (if invert then fsub (Fin 1) (fquot (fsub v (Fin 0)) 100) else fquot (fsub v (Fin 0)) 100)"
  using normalize_float_value [of 100 10000 v invert] normalize_float_value [of 0 500 v invert]
    normalize_float_value [of 20000 150000 v invert] normalize_float_value [of 0 1 v invert]
    normalize_float_value [of 0 100 v invert]
  by simp_all

lemma normalize_int_value:
  assumes "\<bar>v\<bar> < 2 ^ 53" "\<bar>v - mn\<bar> < 2 ^ 53" "\<bar>mn\<bar> < 2 ^ 53" "\<bar>mx - mn\<bar> < 2 ^ 53"
  shows "normalize (PInt v) (PInt mn) (PInt mx) invert =
         normalize (PFloat (Fin (of_int v))) (PInt mn) (PInt mx) invert"
proof (cases "mx = mn")
  case True
  then show ?thesis
    using float_of_int_exact [of 0]
    by (simp add: normalize_def int_truediv_def float_of_int_exact [OF assms(3)])
next
  case False
  define q :: rat where "q = of_int (v - mn) / of_int (mx - mn)"
  define A :: rat where "A = \<bar>of_int (v - mn)\<bar>"
  define B :: rat where "B = \<bar>of_int (mx - mn)\<bar>"
  have "1 \<le> \<bar>mx - mn\<bar>" using False by simp
  then have "(of_int 1 :: rat) \<le> of_int \<bar>mx - mn\<bar>" by (simp only: of_int_le_iff)
  then have b: "1 \<le> B" by (simp add: B_def)
  have a: "0 \<le> A" by (simp add: A_def)
  have "A * 1 \<le> A * B" using a b by (rule mult_left_mono [rotated]) 
  then have "A / B \<le> A" using b by (simp add: divide_le_eq)
  moreover have "\<bar>q\<bar> = A / B" by (simp add: q_def A_def B_def)
  ultimately have "\<bar>q\<bar> \<le> \<bar>of_int (v - mn)\<bar>" by (simp add: A_def)
  also have "\<dots> \<le> of_int (2 ^ 53 - 1)"
    using assms(2) unfolding of_int_abs [symmetric] of_int_le_iff by simp
  finally have q: "- of_int (2 ^ 53 - 1) \<le> q" "q \<le> of_int (2 ^ 53 - 1)" by (simp_all add: abs_le_iff)
  have "fl (of_int (- (2 ^ 53 - 1))) = Fin (of_int (- (2 ^ 53 - 1)))" by (rule fl_of_int) simp
  then have lo: "fl (- of_int (2 ^ 53 - 1)) = Fin (- of_int (2 ^ 53 - 1))" by simp
  have hi: "fl (of_int (2 ^ 53 - 1)) = Fin (of_int (2 ^ 53 - 1))" by (rule fl_of_int) simp
  from fl_between [OF q lo hi] obtain r where r: "fl q = Fin r" by blast
  have s: "fsub (Fin (of_int v)) (Fin (of_int mn)) = Fin (of_int (v - mn))"
    using fl_of_int [OF assms(2)] by (simp add: fsub_def)
  show ?thesis
    using False r
    by (simp add: normalize_def int_truediv_def float_of_int_exact [OF assms(3)]
        float_of_int_exact [OF assms(4)] s q_def)
qed


































section \<open>Rating\<close>

lemma lit_15: "float_lit (15 / 10) = Fin (3 / 2)"
  by (simp add: fl_eval)

lemma lit_08: "float_lit (8 / 10) = Fin (3602879701896397 / 4503599627370496)"
  by (simp add: fl_eval)

lemma lit_04: "float_lit (4 / 10) = Fin (3602879701896397 / 9007199254740992)"
  by (simp add: fl_eval)

lemma lit_02: "float_lit (2 / 10) = Fin (3602879701896397 / 18014398509481984)"
  by (simp add: fl_eval)

lemma lit_14999: "float_lit (14999 / 10000) = Fin (6754949081093007 / 4503599627370496)"
  by (simp add: fl_eval)

lemma lit_01999: "float_lit (1999 / 10000) = Fin (7202156524090897 / 36028797018963968)"
  by (simp add: fl_eval)

lemmas rating_lits = lit_15 lit_08 lit_04 lit_02 lit_14999 lit_01999

text \<open>
  Claim C2.  For every float score (infinities and NaN included),
  \<^verbatim>\<open>calculate_rating\<close> returns "Excellent" iff \<open>score >= 1.5\<close>, "Good" iff
  \<open>0.8 <= score < 1.5\<close>, "Average" iff \<open>0.4 <= score < 0.8\<close>, "Poor" iff
  \<open>0.2 <= score < 0.4\<close>, and "Very Poor" otherwise; the six boundary scores
  1.5, 1.4999, 0.8, 0.4, 0.2 and 0.1999 are rated Excellent, Good, Good,
  Average, Poor and Very Poor.
\<close>

theorem calculate_rating_thresholds:
  "(calculate_rating s = ''Excellent'' \<longleftrightarrow> fge s (float_lit (15 / 10))) \<and>
   (calculate_rating s = ''Good'' \<longleftrightarrow> fge s (float_lit (8 / 10)) \<and> flt s (float_lit (15 / 10))) \<and>
   (calculate_rating s = ''Average'' \<longleftrightarrow> fge s (float_lit (4 / 10)) \<and> flt s (float_lit (8 / 10))) \<and>
   (calculate_rating s = ''Poor'' \<longleftrightarrow> fge s (float_lit (2 / 10)) \<and> flt s (float_lit (4 / 10))) \<and>
   (calculate_rating s = ''Very Poor'' \<longleftrightarrow>
      \<not> fge s (float_lit (15 / 10)) \<and>
      \<not> (fge s (float_lit (8 / 10)) \<and> flt s (float_lit (15 / 10))) \<and>
      \<not> (fge s (float_lit (4 / 10)) \<and> flt s (float_lit (8 / 10))) \<and>
      \<not> (fge s (float_lit (2 / 10)) \<and> flt s (float_lit (4 / 10)))) \<and>
   calculate_rating (float_lit (15 / 10)) = ''Excellent'' \<and>
   calculate_rating (float_lit (14999 / 10000)) = ''Good'' \<and>
   calculate_rating (float_lit (8 / 10)) = ''Good'' \<and>
   calculate_rating (float_lit (4 / 10)) = ''Average'' \<and>
   calculate_rating (float_lit (2 / 10)) = ''Poor'' \<and>
   calculate_rating (float_lit (1999 / 10000)) = ''Very Poor''"
  unfolding calculate_rating_def rating_lits fge_def
  by (cases s) auto

theorem calculate_rating_thresholds_witness:
  "calculate_rating (Fin 1) = ''Good'' \<and> fge (Fin 1) (float_lit (8 / 10)) \<and> flt (Fin 1) (float_lit (15 / 10))"
  using calculate_rating_thresholds [of "Fin 1"] unfolding rating_lits fge_def by simp

section \<open>Scoring\<close>

lemma normalize_defined:
  assumes "\<bar>mn\<bar> < 2 ^ 53" "\<bar>mx - mn\<bar> < 2 ^ 53" "mx \<noteq> mn"
  shows "\<exists>n. normalize (PFloat v) (PInt mn) (PInt mx) invert = Inr n"
  unfolding normalize_float_value [OF assms] by simp

text \<open>
  Claim C1.  For every metric record that contains all 8 metric keys,
  \<^verbatim>\<open>evaluate_neighborhood\<close> returns, and its score is the weighted sum of
  the specification: each metric is normalized with its fixed (min, max,
  invert) range of the normalization table and weighted with the fixed weights
  (.20, .20, .15, .08, .05, .30, .10, .12); the rating is that of the score.
  The example record yields the fixed score \<open>3779167457939653 / 2 ^ 52\<close>,
  printed 0.8391437451437451, rated "Good".
\<close>

theorem score_is_weighted_sum:
  assumes "fst ` set normalization_table \<subseteq> dom record"
  shows "\<exists>ns. map (spec_normalized record) normalization_table = map Inr ns \<and>
              evaluate_neighborhood record =
                Inr \<lparr>rating = calculate_rating (weighted_total ns), score = weighted_total ns\<rparr>"
proof -
  have k: "\<And>k. k \<in> fst ` set normalization_table \<Longrightarrow> \<exists>v. record k = Some v"
    using assms by auto
  obtain v1 where v1: "record ''population_density'' = Some v1"
    using k [of "''population_density''"] by (auto simp: normalization_table_def)
  obtain v2 where v2: "record ''crime_rate'' = Some v2"
    using k [of "''crime_rate''"] by (auto simp: normalization_table_def)
  obtain v3 where v3: "record ''income'' = Some v3"
    using k [of "''income''"] by (auto simp: normalization_table_def)
  obtain v4 where v4: "record ''residential_ratio'' = Some v4"
    using k [of "''residential_ratio''"] by (auto simp: normalization_table_def)
  obtain v5 where v5: "record ''noise_level'' = Some v5"
    using k [of "''noise_level''"] by (auto simp: normalization_table_def)
  obtain v6 where v6: "record ''healthcare_access'' = Some v6"
    using k [of "''healthcare_access''"] by (auto simp: normalization_table_def)
  obtain v7 where v7: "record ''community_engagement'' = Some v7"
    using k [of "''community_engagement''"] by (auto simp: normalization_table_def)
  obtain v8 where v8: "record ''environmental_quality'' = Some v8"
    using k [of "''environmental_quality''"] by (auto simp: normalization_table_def)
  obtain n1 where n1: "normalize (PFloat v1) (PInt 100) (PInt 10000) False = Inr n1"
    using normalize_defined [of 100 10000] by force
  obtain n2 where n2: "normalize (PFloat v2) (PInt 0) (PInt 500) True = Inr n2"
    using normalize_defined [of 0 500] by force
  obtain n3 where n3: "normalize (PFloat v3) (PInt 20000) (PInt 150000) False = Inr n3"
    using normalize_defined [of 20000 150000] by force
  obtain n4 where n4: "normalize (PFloat v4) (PInt 0) (PInt 1) False = Inr n4"
    using normalize_defined [of 0 1] by force
  obtain n5 where n5: "normalize (PFloat v5) (PInt 0) (PInt 100) True = Inr n5"
    using normalize_defined [of 0 100] by force
  obtain n6 where n6: "normalize (PFloat v6) (PInt 0) (PInt 100) False = Inr n6"
    using normalize_defined [of 0 100] by force
  obtain n7 where n7: "normalize (PFloat v7) (PInt 0) (PInt 100) False = Inr n7"
    using normalize_defined [of 0 100] by force
  obtain n8 where n8: "normalize (PFloat v8) (PInt 0) (PInt 100) False = Inr n8"
    using normalize_defined [of 0 100] by force
  note vs = v1 v2 v3 v4 v5 v6 v7 v8 and ns = n1 n2 n3 n4 n5 n6 n7 n8
  have a: "map (spec_normalized record) normalization_table = map Inr [n1, n2, n3, n4, n5, n6, n7, n8]"
    by (simp add: spec_normalized_def normalization_table_def vs ns)
  have b: "evaluate_neighborhood record =
      Inr \<lparr>rating = calculate_rating (weighted_total [n1, n2, n3, n4, n5, n6, n7, n8]),
           score = weighted_total [n1, n2, n3, n4, n5, n6, n7, n8]\<rparr>"
    by (simp add: evaluate_neighborhood_def lookup_def vs ns CRITERIA_WEIGHTS_def
        weighted_total_def spec_weights_def py_sum_def Let_def)
  from a b show ?thesis by blast
qed

lemma example_evaluation:
  "evaluate_neighborhood example_record =
     Inr \<lparr>rating = ''Good'', score = Fin (3779167457939653 / 4503599627370496)\<rparr>"
  by (simp add: evaluate_neighborhood_def example_record_def lookup_def table_normalize fsub_def
      CRITERIA_WEIGHTS_def py_sum_def calculate_rating_def fge_def fl_eval)

theorem score_is_weighted_sum_witness:
  "fst ` set normalization_table \<subseteq> dom example_record \<and>
   evaluate_neighborhood example_record =
     Inr \<lparr>rating = ''Good'', score = Fin (3779167457939653 / 4503599627370496)\<rparr>"
  using score_is_weighted_sum [of example_record] example_evaluation
  by (simp add: normalization_table_def example_record_def)


lemma float_weights_sum:
  "py_sum (map snd CRITERIA_WEIGHTS) = Fin (1351079888211149 / 1125899906842624)"
  by (simp add: CRITERIA_WEIGHTS_def py_sum_def fl_eval)

















section \<open>Metric providers\<close>

lemma try_except_simps [simp]:
  "try_except (Inr x) caught handler = Inr x"
  "try_except (Inl e) caught handler = (if caught e then handler else Inl e)"
  by (simp_all add: try_except_def)

lemma sample_http [simp]:
  "http sample_world (Nominatim q) =
     Response 200 (JList
       (if q = ''Baker Street, London'' then [baker_street]
        else if q = ''Oxford'' then [oxford]
        else if q = ''France'' then [france]
        else []))"
  "http sample_world (PoliceCrimes lat lon) = Response 200 (JList [JObj [], JObj [], JObj []])"
  "http sample_world (Overpass radius lat lon) = Response 200 (JObj [(''elements'', JList sample_buildings)])"
  "http sample_world (TeleportLocations lat lon) = ConnectionFailed"
  "http sample_world (TeleportDetails slug) = ConnectionFailed"
  "http sample_world (WorldBankPopulation code) = ConnectionFailed"
  "http sample_world (WorldBankArea code) = ConnectionFailed"
  "pycountry sample_world n = (if n = ''United Kingdom'' then Some ''GBR'' else None)"
  by (simp_all add: sample_world_def)

lemma sample_urban: "get_urban_area_density sample_world baker_street_details = Inr None"
  by (simp add: get_urban_area_density_def baker_street_details_def requests_get_def
      is_request_exception_def)

lemma sample_country: "get_country_density sample_world baker_street_details = Inr None"
  by (simp add: get_country_density_def baker_street_details_def requests_get_def)

text \<open>
  Claim C9.  When both the urban-area density lookup and the country-level
  density lookup return no value, \<^verbatim>\<open>get_population_density_score\<close> returns
  exactly 5000.
\<close>

theorem density_falls_back_to_5000:
  assumes "get_urban_area_density w address_details = Inr None"
    and "get_country_density w address_details = Inr None"
  shows "get_population_density_score w address_details = Inr 5000"
  by (simp add: get_population_density_score_def assms)

theorem density_falls_back_to_5000_witness:
  "get_urban_area_density sample_world baker_street_details = Inr None \<and>
   get_country_density sample_world baker_street_details = Inr None \<and>
   get_population_density_score sample_world baker_street_details = Inr 5000"
  using density_falls_back_to_5000 [OF sample_urban sample_country] sample_urban sample_country
  by simp

text \<open>
  Claim C3, what the code does.  With coordinates present, a response of the
  crime service with a status other than 200 makes \<^verbatim>\<open>call_api\<close> raise
  FastAPI's \<^verbatim>\<open>HTTPException\<close>, which the handler for
  \<^verbatim>\<open>requests.exceptions.RequestException\<close> in \<^verbatim>\<open>get_crime_score\<close> does not
  catch: the exception leaves the provider instead of the fallback 25.
  \<^verbatim>\<open>get_residential_ratio\<close> has no handler at all: a status other than 200
  and a failed connection both leave the provider as exceptions.
\<close>

theorem provider_failures_propagate:
  assumes "dict_get address_details ''lat'' JNull = Inr lat"
    and "dict_get address_details ''lon'' JNull = Inr lon"
    and "truthy lat" "truthy lon"
  shows "(http w (PoliceCrimes lat lon) = Response st body \<and> st \<noteq> 200 \<longrightarrow>
            get_crime_score w address_details = Inl (HTTPException st)) \<and>
         (http w (Overpass 200 lat lon) = Response st body \<and> st \<noteq> 200 \<longrightarrow>
            get_residential_ratio w address_details = Inl (HTTPException st)) \<and>
         (http w (Overpass 200 lat lon) = ConnectionFailed \<longrightarrow>
            get_residential_ratio w address_details = Inl RequestException)"
  using assms
  by (simp add: get_crime_score_def get_residential_ratio_def call_api_def requests_get_def
      is_request_exception_def)

theorem provider_failures_propagate_witness:
  "get_crime_score crime_service_down baker_street_details = Inl (HTTPException 500) \<and>
   get_residential_ratio building_service_down baker_street_details = Inl RequestException"
  using provider_failures_propagate [of baker_street_details "JStr ''51.5226''" "JStr ''-0.1571''"
      crime_service_down 500 JNull]
    provider_failures_propagate [of baker_street_details "JStr ''51.5226''" "JStr ''-0.1571''"
      building_service_down 500 JNull]
  by (simp add: baker_street_details_def crime_service_down_def building_service_down_def)

lemma building_tags_wellformed:
  "map element_tag els = map Some tags \<Longrightarrow> building_tags els = Inr tags"
proof (induction els arbitrary: tags)
  case Nil
  then show ?case by simp
next
  case (Cons el els)
  then obtain t ts where tags: "tags = t # ts" and t: "element_tag el = Some t"
    and ts: "map element_tag els = map Some ts" by (cases tags) auto
  from t have "ebind (dict_get el ''tags'' (JObj [])) (\<lambda>tags.
           ebind (dict_get tags ''building'' (JStr [])) py_lower) = Inr t"
    by (cases el) (auto split: option.splits json.splits)
  then show ?case using Cons.IH [OF ts] tags by simp
qed

lemma fl_unit_interval:
  assumes "0 \<le> x" "x \<le> 1"
  shows "\<exists>q. fl x = Fin q \<and> 0 \<le> q \<and> q \<le> 1"
proof -
  have "fl 1 = Fin 1" using fl_of_int [of 1] by simp
  from fl_between [OF assms fl_zero this] show ?thesis .
qed

lemma int_truediv_fraction:
  assumes "c \<le> n" "0 < n"
  shows "int_truediv (int c) (int n) = Inr (fl (of_nat c / of_nat n))"
proof -
  have "0 \<le> (of_nat c / of_nat n :: rat)" "(of_nat c / of_nat n :: rat) \<le> 1"
    using assms by simp_all
  from fl_unit_interval [OF this] show ?thesis using assms by (auto simp: int_truediv_def)
qed

lemma warehouse_ratio:
  "get_residential_ratio warehouse_world baker_street_details = Inr (Fin 1)"
  by (simp add: get_residential_ratio_def call_api_def requests_get_def warehouse_world_def
      baker_street_details_def lower_char_def is_residential_def sublist_code int_truediv_def fl_eval)

text \<open>
  Claim C10, counterexample.  The code tests whether the lower-cased tag
  contains \<^verbatim>\<open>residential\<close> anywhere, not whether it starts with it.  A
  response with the single building \<^verbatim>\<open>non_residential\<close> gives the ratio 1.0;
  the tag is not in the set \<^verbatim>\<open>{residential*, house, apartments, detached,
  semidetached_house}\<close>, which makes the claimed ratio 0/1.
\<close>

theorem substring_tag_is_counted:
  "http warehouse_world (Overpass 200 (JStr ''51.5226'') (JStr ''-0.1571'')) =
     Response 200 (JObj [(''elements'',
       JList [JObj [(''type'', JStr ''way''), (''tags'', JObj [(''building'', JStr ''non_residential'')])]])]) \<and>
   get_residential_ratio warehouse_world baker_street_details = Inr (Fin 1) \<and>
   length (filter residential_tag_set [''non_residential'']) = 0 \<and>
   length (filter is_residential [''non_residential'']) = 1"
  unfolding warehouse_ratio
  by (simp add: warehouse_world_def residential_tag_set_def is_residential_def sublist_code)


text \<open>
  Claim C10, as amended.  For every building-footprint response (status 200, a
  JSON object whose \<^verbatim>\<open>elements\<close> are objects with an optional \<^verbatim>\<open>tags\<close>
  object carrying an optional string \<^verbatim>\<open>building\<close>),
  \<^verbatim>\<open>get_residential_ratio\<close> returns 0.0 when the list of buildings is empty,
  so no division by zero occurs, and otherwise the number of buildings whose
  lower-cased tag contains \<open>residential\<close> anywhere or is one of \<open>house\<close>,
  \<open>apartments\<close>, \<open>detached\<close>, \<open>semidetached_house\<close>, divided by the
  number of buildings returned; the quotient is a float between 0 and 1.
\<close>

theorem residential_ratio_is_fraction:
  assumes "dict_get address_details ''lat'' JNull = Inr lat"
    and "dict_get address_details ''lon'' JNull = Inr lon"
    and "http w (Overpass 200 lat lon) = Response 200 (JObj body)"
    and "map_of body ''elements'' = Some (JList els)"
    and "map element_tag els = map Some tags"
  shows "get_residential_ratio w address_details =
           Inr (if els = [] then Fin 0
                else fl (of_nat (length (filter is_residential tags)) / of_nat (length els))) \<and>
         (\<exists>q. fl (of_nat (length (filter is_residential tags)) / of_nat (length els)) = Fin q \<and>
               0 \<le> q \<and> q \<le> 1)"
proof -
  have len: "length tags = length els" using assms(5) by (metis length_map)
  have tags: "building_tags els = Inr tags" using assms(5) by (rule building_tags_wellformed)
  have e: "(tags = []) = (els = [])" using len by auto
  have c: "length (filter is_residential tags) \<le> length tags" by simp
  have r: "get_residential_ratio w address_details =
      Inr (if els = [] then Fin 0
           else fl (of_nat (length (filter is_residential tags)) / of_nat (length els)))"
  proof (cases "els = []")
    case True
    then show ?thesis using assms(1-4) tags e
      by (simp add: get_residential_ratio_def call_api_def requests_get_def)
  next
    case False
    then have "0 < length tags" using e by simp
    from int_truediv_fraction [OF c this] False show ?thesis using assms(1-4) tags e len
      by (simp add: get_residential_ratio_def call_api_def requests_get_def Let_def)
  qed
  have "0 \<le> (of_nat (length (filter is_residential tags)) / of_nat (length els) :: rat)"
    by simp
  moreover have "(of_nat (length (filter is_residential tags)) / of_nat (length els) :: rat) \<le> 1"
    using c len by (cases "els = []") (simp_all add: divide_le_eq_1)
  ultimately show ?thesis using r fl_unit_interval by blast
qed

lemma sample_tags:
  "map element_tag sample_buildings = map Some [''house'', ''residential'', ''retail'', []]"
  by (simp add: sample_buildings_def lower_char_def)

lemma sample_residential:
  "filter is_residential [''house'', ''residential'', ''retail'', []] = [''house'', ''residential'']"
  by (simp add: is_residential_def sublist_code)

lemma fl_half: "fl (1 / 2) = Fin (1 / 2)"
  by (simp add: fl_eval)

theorem residential_ratio_is_fraction_witness:
  "get_residential_ratio sample_world baker_street_details = Inr (Fin (1 / 2))"
proof -
  have "get_residential_ratio sample_world baker_street_details =
          Inr (if sample_buildings = [] then Fin 0
               else fl (of_nat (length (filter is_residential [''house'', ''residential'', ''retail'', []]))
                        / of_nat (length sample_buildings)))"
    using residential_ratio_is_fraction [of baker_street_details "JStr ''51.5226''" "JStr ''-0.1571''"
        sample_world "[(''elements'', JList sample_buildings)]" sample_buildings
        "[''house'', ''residential'', ''retail'', []]"] sample_tags
    by (simp add: baker_street_details_def)
  also have "\<dots> = Inr (fl (1 / 2))"
    unfolding sample_residential by (simp add: sample_buildings_def)
  finally show ?thesis by (simp only: fl_half)
qed

section \<open>Address validation\<close>

lemma not_found_message: "sublist ''not found'' (p @ a @ '' was not found'')"
  unfolding sublist_def
  by (rule exI [of _ "p @ a @ '' was ''"], rule exI [of _ "[]"]) simp

lemma invalid_message:
  "sublist ''invalid'' (p @ a @ '' is invalid, please enter a residential address'')"
  unfolding sublist_def
  by (rule exI [of _ "p @ a @ '' is ''"], rule exI [of _ "'', please enter a residential address''"]) simp

text \<open>
  Claim C5.  Let the geocoder answer the query with status 200 and a list of
  results, the first of which (if any) has an \<^verbatim>\<open>address\<close> object, \<^verbatim>\<open>lat\<close>,
  \<^verbatim>\<open>lon\<close> and a string \<^verbatim>\<open>type\<close>.  Then validation returns the address
  details with \<^verbatim>\<open>lat\<close> and \<^verbatim>\<open>lon\<close> set exactly when the type is one of
  residential, postcode, city; with no result it returns a message containing
  "not found"; with any other type it returns a message containing "invalid".
  The rejections are returned values, not exceptions.
\<close>

theorem address_validation:
  assumes "http w (Nominatim a) = Response 200 (JList results)"
    and "results \<noteq> [] \<Longrightarrow>
           \<exists>r rest. results = JObj r # rest \<and> map_of r ''address'' = Some (JObj ad) \<and>
             map_of r ''lat'' = Some lat \<and> map_of r ''lon'' = Some lon \<and>
             map_of r ''type'' = Some (JStr t)"
  shows "(results = [] \<longrightarrow>
            (\<exists>m. get_valid_address_details w a = Inr (JStr m) \<and> sublist ''not found'' m)) \<and>
         (results \<noteq> [] \<and> t \<in> set [''residential'', ''postcode'', ''city''] \<longrightarrow>
            (\<exists>d. get_valid_address_details w a = Inr (JObj d) \<and>
                 map_of d ''lat'' = Some lat \<and> map_of d ''lon'' = Some lon)) \<and>
         (results \<noteq> [] \<and> t \<notin> set [''residential'', ''postcode'', ''city''] \<longrightarrow>
            (\<exists>m. get_valid_address_details w a = Inr (JStr m) \<and> sublist ''invalid'' m))"
proof (cases "results = []")
  case True
  then have "get_valid_address_details w a = Inr (JStr (''The address: '' @ a @ '' was not found''))"
    using assms(1)
    by (simp add: get_valid_address_details_def get_address_details_def call_api_def requests_get_def)
  then show ?thesis using True not_found_message by blast
next
  case False
  from assms(2) [OF False] obtain r rest where r: "results = JObj r # rest"
    "map_of r ''address'' = Some (JObj ad)" "map_of r ''lat'' = Some lat"
    "map_of r ''lon'' = Some lon" "map_of r ''type'' = Some (JStr t)" by blast
  have "get_valid_address_details w a =
      Inr (if t \<in> set [''residential'', ''postcode'', ''city'']
           then JObj (AList.update ''lon'' lon (AList.update ''lat'' lat ad))
           else JStr (''The address: '' @ a @ '' is invalid, please enter a residential address''))"
    using assms(1) r
    by (simp add: get_valid_address_details_def get_address_details_def call_api_def requests_get_def
        seq_index_def accepted_place_types_def)
  moreover have "map_of (AList.update ''lon'' lon (AList.update ''lat'' lat ad)) ''lat'' = Some lat"
    "map_of (AList.update ''lon'' lon (AList.update ''lat'' lat ad)) ''lon'' = Some lon"
    by (simp_all add: update_conv')
  ultimately show ?thesis using False invalid_message [of "''The address: ''" a]
    by (cases "t \<in> set [''residential'', ''postcode'', ''city'']") auto
qed

theorem address_validation_witness:
  "get_valid_address_details sample_world ''Atlantis'' = Inr (JStr ''The address: Atlantis was not found'') \<and>
   get_valid_address_details sample_world ''Baker Street, London'' = Inr baker_street_details \<and>
   get_valid_address_details sample_world ''France'' =
     Inr (JStr ''The address: France is invalid, please enter a residential address'')"
  using address_validation [of sample_world "''Atlantis''" "[]"]
    address_validation [of sample_world "''Baker Street, London''" "[baker_street]"
      "[(''road'', JStr ''Baker Street''), (''country'', JStr ''United Kingdom'')]"
      "JStr ''51.5226''" "JStr ''-0.1571''" "''residential''"]
  by (simp add: get_valid_address_details_def get_address_details_def call_api_def requests_get_def
      seq_index_def accepted_place_types_def baker_street_def france_def baker_street_details_def)

section \<open>The batch endpoint\<close>

lemma sample_crime:
  "get_crime_score sample_world (JObj kvs) =
     (if truthy (case map_of kvs ''lat'' of Some v \<Rightarrow> v | None \<Rightarrow> JNull) \<and>
         truthy (case map_of kvs ''lon'' of Some v \<Rightarrow> v | None \<Rightarrow> JNull)
      then Inr (Fin (5404319552844595 / 9007199254740992)) else Inr (Fin 25))"
  by (simp add: get_crime_score_def call_api_def requests_get_def int_truediv_def py_min_def fl_eval)

lemma sample_ratio: "get_residential_ratio sample_world (JObj kvs) = Inr (Fin (1 / 2))"
  by (simp add: get_residential_ratio_def call_api_def requests_get_def sample_buildings_def
      lower_char_def is_residential_def sublist_code int_truediv_def fl_eval)

lemma sample_density:
  "get_population_density_score sample_world baker_street_details = Inr 5000"
  "get_population_density_score sample_world oxford_details = Inr 5000"
  by (simp_all add: get_population_density_score_def get_urban_area_density_def
      get_country_density_def baker_street_details_def oxford_details_def requests_get_def
      is_request_exception_def)

lemma sample_data:
  "get_address_data sample_world baker_street_details = Inr sample_record"
  "get_address_data sample_world oxford_details = Inr sample_record"
  unfolding get_address_data_def get_neighbourhood_data_def sample_density
  by (simp_all add: baker_street_details_def oxford_details_def sample_crime sample_ratio
      sample_record_def)

lemma sample_validation:
  "get_valid_address_details sample_world ''Baker Street, London'' = Inr baker_street_details"
  "get_valid_address_details sample_world ''Oxford'' = Inr oxford_details"
  "get_valid_address_details sample_world ''Atlantis'' = Inr (JStr ''The address: Atlantis was not found'')"
  by (simp_all add: get_valid_address_details_def get_address_details_def call_api_def
      requests_get_def seq_index_def accepted_place_types_def baker_street_def oxford_def
      baker_street_details_def oxford_details_def)

lemma sample_evaluation:
  "evaluate_neighborhood sample_record =
     Inr \<lparr>rating = ''Good'', score = Fin (1880036097759801 / 2251799813685248)\<rparr>"
  by (simp add: evaluate_neighborhood_def sample_record_def lookup_def table_normalize fsub_def
      CRITERIA_WEIGHTS_def py_sum_def calculate_rating_def fge_def fl_eval)

lemma rejected_details_raise: "get_address_data w (JStr m) = Inl AttributeError"
  by (simp add: get_address_data_def get_neighbourhood_data_def get_population_density_score_def
      get_urban_area_density_def)

lemma sample_batch:
  "get_many_addresses_probability sample_world [''Baker Street, London'', ''Oxford''] =
     Inr [\<lparr>address = ''Baker Street, London'',
            data_r = \<lparr>rating = ''Good'', score = Fin (1880036097759801 / 2251799813685248)\<rparr>\<rparr>,
          \<lparr>address = ''Oxford'',
            data_r = \<lparr>rating = ''Good'', score = Fin (1880036097759801 / 2251799813685248)\<rparr>\<rparr>]"
  by (simp add: get_many_addresses_probability_def sample_validation sample_data sample_evaluation)

lemma sample_batch_rejected:
  "get_many_addresses_probability sample_world [''Baker Street, London'', ''Atlantis''] =
     Inl AttributeError"
  by (simp add: get_many_addresses_probability_def sample_validation sample_data
      rejected_details_raise)


lemma validate_all_details:
  "validate_all w addrs = Inr es \<Longrightarrow>
     list_all2 (\<lambda>a e. name e = a \<and> get_valid_address_details w a = Inr (details e)) addrs es"
  by (induction addrs arbitrary: es) (auto split: sum.splits)


lemma fetch_all_succeeds:
  "fetch_all w es = Inr es' \<Longrightarrow> e \<in> set es \<Longrightarrow> \<exists>d. get_address_data w (details e) = Inr d"
  by (induction es arbitrary: es') (auto split: sum.splits)


lemma batch_stages:
  assumes "get_many_addresses_probability w addrs = Inr rs"
  obtains es es' where "validate_all w addrs = Inr es" "fetch_all w es = Inr es'"
    "get_algorithm_results es' = Inr rs"
  using assms unfolding get_many_addresses_probability_def
  by (cases "validate_all w addrs"; cases "fetch_all w (projr (validate_all w addrs))") auto

lemma validate_all_entry:
  "validate_all w addrs = Inr es \<Longrightarrow> x \<in> set addrs \<Longrightarrow>
     \<exists>e \<in> set es. name e = x \<and> get_valid_address_details w x = Inr (details e)"
  by (induction addrs arbitrary: es) (auto split: sum.splits)













lemma crime_down_batch:
  "get_many_addresses_probability crime_service_down [''Baker Street, London'', ''Atlantis''] =
     Inl (HTTPException 500)"
  by (simp add: get_many_addresses_probability_def get_valid_address_details_def
      get_address_details_def call_api_def requests_get_def crime_service_down_def
      seq_index_def accepted_place_types_def baker_street_def
      get_address_data_def get_neighbourhood_data_def get_population_density_score_def
      get_urban_area_density_def get_country_density_def is_request_exception_def
      get_crime_score_def)

text \<open>
  Claim C6, counterexample.  A rejection message stored by the first loop
  need not reach \<^verbatim>\<open>get_address_data\<close>: with the crime service answering 500
  the batch of a valid and an unknown address raises \<^verbatim>\<open>HTTPException\<close> at
  the first address, before the message is fetched.  And it never reaches
  scoring: when the second loop does come to the message,
  \<^verbatim>\<open>get_address_data\<close> raises \<^verbatim>\<open>AttributeError\<close> on the string, so
  \<^verbatim>\<open>get_algorithm_results\<close> is not called.
\<close>

theorem rejection_message_not_scored:
  "get_many_addresses_probability crime_service_down [''Baker Street, London'', ''Atlantis''] =
     Inl (HTTPException 500) \<and>
   validate_all sample_world [''Atlantis''] =
     Inr [\<lparr>name = ''Atlantis'', details = JStr ''The address: Atlantis was not found'',
           data = Map.empty\<rparr>] \<and>
   fetch_all sample_world
     [\<lparr>name = ''Atlantis'', details = JStr ''The address: Atlantis was not found'',
       data = Map.empty\<rparr>] = Inl AttributeError"
  unfolding crime_down_batch by (simp add: sample_validation rejected_details_raise)

text \<open>
  Claim C6, as amended.  In the batch path the first loop stores, for every
  address, what \<^verbatim>\<open>get_valid_address_details\<close> returned: for an address whose
  validation is rejected this is the rejection message string, unchanged.
  \<^verbatim>\<open>get_address_data\<close> raises \<^verbatim>\<open>AttributeError\<close> on such a string, and
  nothing in the batch path treats a rejected address specially: when the
  input contains a rejected address and the first loop completes, the second
  loop raises (at the message, or at an earlier entry), so the batch raises
  and scoring is not reached.  The batch completes without error only when
  every input address validates.
\<close>

theorem batch_has_no_guard:
  "(validate_all w addrs = Inr es \<longrightarrow>
      list_all2 (\<lambda>x e. name e = x \<and> get_valid_address_details w x = Inr (details e)) addrs es) \<and>
   (get_address_details w a = Inr (d, False, m) \<longrightarrow>
      get_valid_address_details w a = Inr (JStr m) \<and>
      get_address_data w (JStr m) = Inl AttributeError) \<and>
   (a \<in> set addrs \<and> get_address_details w a = Inr (d, False, m) \<and> validate_all w addrs = Inr es \<longrightarrow>
      (\<exists>e \<in> set es. name e = a \<and> details e = JStr m) \<and> (\<exists>err. fetch_all w es = Inl err)) \<and>
   (a \<in> set addrs \<and> get_address_details w a = Inr (d, False, m) \<longrightarrow>
      (\<exists>err. get_many_addresses_probability w addrs = Inl err)) \<and>
   (get_many_addresses_probability w addrs = Inr rs \<longrightarrow>
      (\<forall>x \<in> set addrs. \<exists>dx mx. get_address_details w x = Inr (dx, True, mx)))"
proof -
  have v: "get_valid_address_details w a = Inr (JStr m)"
    if "get_address_details w a = Inr (d, False, m)"
    using that by (simp add: get_valid_address_details_def)
  have stored: "(\<exists>e \<in> set es. name e = a \<and> details e = JStr m) \<and> (\<exists>err. fetch_all w es = Inl err)"
    if r: "get_address_details w a = Inr (d, False, m)" and a: "a \<in> set addrs"
      and es: "validate_all w addrs = Inr es" for es
  proof -
    from validate_all_entry [OF es a] v [OF r] obtain e where e: "e \<in> set es" "name e = a"
      "details e = JStr m" by auto
    have "\<exists>err. fetch_all w es = Inl err"
    proof (cases "fetch_all w es")
      case (Inr es')
      from fetch_all_succeeds [OF Inr e(1)] show ?thesis
        by (simp add: e(3) rejected_details_raise)
    qed blast
    with e show ?thesis by blast
  qed
  have raises: "\<exists>err. get_many_addresses_probability w addrs = Inl err"
    if r: "get_address_details w a = Inr (d, False, m)" and a: "a \<in> set addrs"
  proof (cases "validate_all w addrs")
    case (Inl err)
    then show ?thesis by (simp add: get_many_addresses_probability_def)
  next
    case (Inr es)
    from stored [OF r a Inr] obtain err where "fetch_all w es = Inl err" by blast
    then show ?thesis using Inr by (simp add: get_many_addresses_probability_def)
  qed
  have valid: "\<exists>dx mx. get_address_details w x = Inr (dx, True, mx)"
    if b: "get_many_addresses_probability w addrs = Inr rs" and x: "x \<in> set addrs" for x
  proof -
    from b obtain es es' where s: "validate_all w addrs = Inr es" "fetch_all w es = Inr es'"
      by (rule batch_stages)
    from validate_all_entry [OF s(1) x] obtain e where e: "e \<in> set es"
      "get_valid_address_details w x = Inr (details e)" by blast
    from fetch_all_succeeds [OF s(2) e(1)] obtain md where md: "get_address_data w (details e) = Inr md"
      by blast
    show ?thesis
    proof (cases "get_address_details w x")
      case (Inl err)
      then show ?thesis using e(2) by (simp add: get_valid_address_details_def)
    next
      case (Inr res)
      obtain dx ok mx where res: "res = (dx, ok, mx)" by (cases res)
      show ?thesis
      proof (cases ok)
        case True
        then show ?thesis using Inr res by simp
      next
        case False
        then have "details e = JStr mx" using Inr res e(2) by (simp add: get_valid_address_details_def)
        then show ?thesis using md rejected_details_raise by simp
      qed
    qed
  qed
  show ?thesis
    using v stored raises valid validate_all_details [of w addrs es] rejected_details_raise [of w m]
    by blast
qed

theorem batch_has_no_guard_witness:
  "get_address_details sample_world ''Atlantis'' =
     Inr (JObj [], False, ''The address: Atlantis was not found'') \<and>
   validate_all sample_world [''Baker Street, London'', ''Atlantis''] =
     Inr [\<lparr>name = ''Baker Street, London'', details = baker_street_details, data = Map.empty\<rparr>,
          \<lparr>name = ''Atlantis'', details = JStr ''The address: Atlantis was not found'',
            data = Map.empty\<rparr>] \<and>
   get_address_data sample_world (JStr ''The address: Atlantis was not found'') = Inl AttributeError \<and>
   get_many_addresses_probability sample_world [''Baker Street, London'', ''Atlantis''] =
     Inl AttributeError \<and>
   get_many_addresses_probability sample_world [''Baker Street, London'', ''Oxford''] =
     Inr [\<lparr>address = ''Baker Street, London'',
            data_r = \<lparr>rating = ''Good'', score = Fin (1880036097759801 / 2251799813685248)\<rparr>\<rparr>,
          \<lparr>address = ''Oxford'',
            data_r = \<lparr>rating = ''Good'', score = Fin (1880036097759801 / 2251799813685248)\<rparr>\<rparr>] \<and>
   get_address_details sample_world ''Oxford'' = Inr (oxford_details, True, ''Address is valid'')"
  using batch_has_no_guard [of sample_world "[''Baker Street, London'', ''Atlantis'']"
      "[\<lparr>name = ''Baker Street, London'', details = baker_street_details, data = Map.empty\<rparr>,
        \<lparr>name = ''Atlantis'', details = JStr ''The address: Atlantis was not found'',
          data = Map.empty\<rparr>]"
      "''Atlantis''" "JObj []" "''The address: Atlantis was not found''"]
    batch_has_no_guard [of sample_world "[''Baker Street, London'', ''Oxford'']" _ _ _ _
      "[\<lparr>address = ''Baker Street, London'',
          data_r = \<lparr>rating = ''Good'', score = Fin (1880036097759801 / 2251799813685248)\<rparr>\<rparr>,
        \<lparr>address = ''Oxford'',
          data_r = \<lparr>rating = ''Good'', score = Fin (1880036097759801 / 2251799813685248)\<rparr>\<rparr>]"]
    sample_batch sample_batch_rejected sample_validation rejected_details_raise
  by (simp add: get_address_details_def call_api_def requests_get_def seq_index_def
      accepted_place_types_def oxford_def oxford_details_def baker_street_def)

end
